theory Spec2Isabelle
  imports Main
begin

section \<open>Python values\<close>

text \<open>
  A Python \<open>str\<close> is a sequence of Unicode code points. Isabelle's \<open>char\<close> has eight
  bits, so a string is modelled as the list of its code points; \<open>ustr\<close> turns an
  Isabelle literal into such a string.
\<close>

type_synonym pystr = "nat list"

definition ustr :: "string \<Rightarrow> pystr" where
  "ustr s = map of_char s"

text \<open>
  The values that travel between the server and the Unity bridge are decoded JSON:
  \<open>None\<close>, booleans, integers, strings, lists and dictionaries with string keys. A
  dictionary is the list of its items in insertion order, with distinct keys. \<open>PObj\<close>
  stands for an object of any other type (a float, for instance): all the code ever
  asks of it is its truth value and, when an attribute is missing, its type name.
\<close>

datatype pyval =
    PNone
  | PBool bool
  | PInt int
  | PStr pystr
  | PList "pyval list"
  | PDict "(pystr \<times> pyval) list"
  | PObj bool pystr

text \<open>
  Exceptions of class \<open>Exception\<close>, the ones every handler in these sources catches
  (\<open>except Exception\<close>). \<open>Raised m\<close> is any exception raised by a collaborator outside
  these sources whose \<open>str()\<close> is \<open>m\<close>. Interrupts of the process (\<open>KeyboardInterrupt\<close>,
  \<open>SystemExit\<close>) are not of that class; they enter with the dynamic tools below.
\<close>

datatype exn =
    IndexError
  | KeyError pystr
  | AttributeError pystr pystr
  | TypeError pystr
  | UnboundLocalError pystr
  | Raised pystr

fun str_exn :: "exn \<Rightarrow> pystr" where
  "str_exn IndexError = ustr ''list index out of range''"
| "str_exn (KeyError k) = ustr [CHR 0x27] @ k @ ustr [CHR 0x27]"
| "str_exn (AttributeError ty a) =
     ustr [CHR 0x27] @ ty @ ustr (CHR 0x27 # '' object has no attribute '' @ [CHR 0x27])
       @ a @ ustr [CHR 0x27]"
| "str_exn (TypeError m) = m"
| "str_exn (UnboundLocalError v) =
     ustr (''cannot access local variable '' @ [CHR 0x27]) @ v
       @ ustr (CHR 0x27 # '' where it is not associated with a value'')"
| "str_exn (Raised m) = m"

fun type_name :: "pyval \<Rightarrow> pystr" where
  "type_name PNone = ustr ''NoneType''"
| "type_name (PBool _) = ustr ''bool''"
| "type_name (PInt _) = ustr ''int''"
| "type_name (PStr _) = ustr ''str''"
| "type_name (PList _) = ustr ''list''"
| "type_name (PDict _) = ustr ''dict''"
| "type_name (PObj _ ty) = ty"

text \<open>Truth value testing (\<open>if x\<close>, \<open>not x\<close>, \<open>x or y\<close>).\<close>

fun truthy :: "pyval \<Rightarrow> bool" where
  "truthy PNone = False"
| "truthy (PBool b) = b"
| "truthy (PInt i) = (i \<noteq> 0)"
| "truthy (PStr s) = (s \<noteq> [])"
| "truthy (PList xs) = (xs \<noteq> [])"
| "truthy (PDict kvs) = (kvs \<noteq> [])"
| "truthy (PObj b _) = b"

text \<open>\<open>d.get(k, default)\<close>; on anything but a dictionary the attribute is missing.\<close>

fun py_get :: "pyval \<Rightarrow> pystr \<Rightarrow> pyval \<Rightarrow> exn + pyval" where
  "py_get (PDict kvs) k dflt = Inr (case map_of kvs k of None \<Rightarrow> dflt | Some v \<Rightarrow> v)"
| "py_get v k dflt = Inl (AttributeError (type_name v) (ustr ''get''))"

type_synonym pydict = "(pystr \<times> pyval) list"

text \<open>\<open>d[k]\<close> on a dictionary.\<close>

definition py_item :: "pydict \<Rightarrow> pystr \<Rightarrow> exn + pyval" where
  "py_item kvs k = (case map_of kvs k of None \<Rightarrow> Inl (KeyError k) | Some v \<Rightarrow> Inr v)"

text \<open>
  \<open>xs[i]\<close> on a list: from the front for \<open>0 \<le> i\<close>, from the back for \<open>i < 0\<close>, and
  \<open>IndexError\<close> outside \<open>-len(xs) \<le> i < len(xs)\<close>.
\<close>

definition py_index :: "'a list \<Rightarrow> int \<Rightarrow> exn + 'a" where
  "py_index xs i =
     (if 0 \<le> i \<and> i < int (length xs) then Inr (xs ! nat i)
      else if - int (length xs) \<le> i \<and> i < 0 then Inr (xs ! nat (int (length xs) + i))
      else Inl IndexError)"

section \<open>String operations\<close>

text \<open>\<open>marker in line\<close>: the marker occurs as a contiguous substring.\<close>

fun starts_with :: "'a list \<Rightarrow> 'a list \<Rightarrow> bool" where
  "starts_with [] ys = True"
| "starts_with (x # xs) [] = False"
| "starts_with (x # xs) (y # ys) = (x = y \<and> starts_with xs ys)"

fun contains :: "'a list \<Rightarrow> 'a list \<Rightarrow> bool" where
  "contains m [] = (m = [])"
| "contains m (y # ys) = (starts_with m (y # ys) \<or> contains m ys)"

text \<open>
  The characters \<open>str.strip()\<close> removes: those for which \<open>str.isspace\<close> holds.
\<close>

definition is_space :: "nat \<Rightarrow> bool" where
  "is_space c =
     ((0x09 \<le> c \<and> c \<le> 0x0D) \<or> (0x1C \<le> c \<and> c \<le> 0x20) \<or> c = 0x85 \<or> c = 0xA0
      \<or> c = 0x1680 \<or> (0x2000 \<le> c \<and> c \<le> 0x200A) \<or> c = 0x2028 \<or> c = 0x2029
      \<or> c = 0x202F \<or> c = 0x205F \<or> c = 0x3000)"

definition strip :: "pystr \<Rightarrow> pystr" where
  "strip s = rev (dropWhile is_space (rev (dropWhile is_space s)))"

text \<open>\<open>str(n)\<close> for an integer, as an f-string formats it.\<close>

fun str_nat :: "nat \<Rightarrow> pystr" where
  "str_nat n = (if n < 10 then [48 + n] else str_nat (n div 10) @ [48 + n mod 10])"

definition str_int :: "int \<Rightarrow> pystr" where
  "str_int i = (if i < 0 then 45 # str_nat (nat (- i)) else str_nat (nat i))"

text \<open>\<open>s.replace(old, new)\<close> where \<open>old\<close> and \<open>new\<close> are single characters.\<close>

definition replace_char :: "nat \<Rightarrow> nat \<Rightarrow> pystr \<Rightarrow> pystr" where
  "replace_char old new s = map (\<lambda>c. if c = old then new else c) s"

section \<open>The log scan\<close>

text \<open>
  \<open>for i in range(i, stop, -1): if marker in lines[i]: index = i; break\<close>, with the
  index initialised to \<open>-1\<close>.
\<close>

function scan_back :: "pystr \<Rightarrow> pystr list \<Rightarrow> int \<Rightarrow> int \<Rightarrow> exn + int" where
  "scan_back marker lines i stop =
     (if i \<le> stop then Inr (- 1)
      else case py_index lines i of
             Inl e \<Rightarrow> Inl e
           | Inr l \<Rightarrow> if contains marker l then Inr i
                      else scan_back marker lines (i - 1) stop)"
  by pat_completeness auto
termination
  by (relation "measure (\<lambda>(marker, lines, i, stop). nat (i - stop))") auto

text \<open>
  \<open>for i in range(i, stop): line = lines[i].strip(); if line: logs.append(line)\<close>
\<close>

function collect :: "pystr list \<Rightarrow> int \<Rightarrow> int \<Rightarrow> pystr list \<Rightarrow> exn + pystr list" where
  "collect lines i stop logs =
     (if stop \<le> i then Inr logs
      else case py_index lines i of
             Inl e \<Rightarrow> Inl e
           | Inr l \<Rightarrow> (let line = strip l
                       in collect lines (i + 1) stop
                            (if line \<noteq> [] then logs @ [line] else logs)))"
  by pat_completeness auto
termination
  by (relation "measure (\<lambda>(lines, i, stop, logs). nat (stop - i))") auto

declare str_nat.simps [simp del] scan_back.simps [simp del] collect.simps [simp del]

section \<open>The environment\<close>

text \<open>
  The process environment, and the file system as the code uses it. A path is the list
  of the parts joined by \<open>/\<close>. For each path the file system says whether a file is
  there, which error \<open>stat\<close> fails with when it is one that \<open>Path.exists()\<close> does not
  take for absence (\<open>EACCES\<close>, \<open>ENAMETOOLONG\<close>; \<open>ENOENT\<close> and \<open>ENOTDIR\<close> it does), and
  what \<open>open(path).readlines()\<close> gives: the lines, or the exception raised.
\<close>

type_synonym environ = "pystr \<rightharpoonup> pystr"

type_synonym path = "pystr list"

record filesystem =
  present :: "path \<Rightarrow> bool"
  stat_error :: "path \<Rightarrow> exn option"
  readlines :: "path \<Rightarrow> exn + pystr list"

text \<open>\<open>path.exists()\<close>: the error of \<open>stat\<close> is raised again, otherwise the answer.\<close>

definition path_exists :: "filesystem \<Rightarrow> path \<Rightarrow> exn + bool" where
  "path_exists fs p =
     (case stat_error fs p of
        Some e \<Rightarrow> Inl e
      | None \<Rightarrow> Inr (present fs p))"

text \<open>
  A connection to the Unity bridge is what its \<open>send_command(name, params)\<close> does: it
  returns the decoded response or raises. \<open>get_unity_connection()\<close> lives outside these
  sources; its outcome is a parameter of every function that may call it.
\<close>

type_synonym connection = "pystr \<Rightarrow> pydict \<Rightarrow> exn + pyval"

fun is_dict :: "pyval \<Rightarrow> bool" where
  "is_dict (PDict _) = True"
| "is_dict _ = False"

fun has_key :: "pyval \<Rightarrow> pystr \<Rightarrow> bool" where
  "has_key (PDict kvs) k = (k \<in> fst ` set kvs)"
| "has_key _ k = False"

section \<open>unity_compile_core.py\<close>

text \<open>
  \<open>trigger_compilation_via_unity\<close>: the body of the \<open>try\<close>, then the function with its
  \<open>except Exception\<close>. Log calls and the three-second sleep leave no trace in the value.
\<close>

definition trigger_compilation_body ::
  "connection option \<Rightarrow> (exn + connection option) \<Rightarrow> exn + bool" where
  "trigger_compilation_body unity_connection get_unity_connection =
     (case (case unity_connection of
              None \<Rightarrow> get_unity_connection
            | Some c \<Rightarrow> Inr (Some c)) of
        Inl e \<Rightarrow> Inl e
      | Inr None \<Rightarrow> Inr False
      | Inr (Some conn) \<Rightarrow>
          (case conn (ustr ''project_files_refresher'') [] of
             Inl e \<Rightarrow> Inl e
           | Inr refresh_response \<Rightarrow>
               (case py_get refresh_response (ustr ''success'') (PBool True) of
                  Inl e \<Rightarrow> Inl e
                | Inr success0 \<Rightarrow>
                    (let success =
                       (if is_dict refresh_response
                           \<and> \<not> has_key refresh_response (ustr ''error'')
                        then PBool True else success0)
                     in if truthy success then Inr True else Inr False))))"

definition trigger_compilation_via_unity ::
  "connection option \<Rightarrow> (exn + connection option) \<Rightarrow> exn + bool" where
  "trigger_compilation_via_unity unity_connection get_unity_connection =
     (case trigger_compilation_body unity_connection get_unity_connection of
        Inl e \<Rightarrow> Inr False
      | Inr b \<Rightarrow> Inr b)"

text \<open>The path of Editor.log, from \<open>LOCALAPPDATA\<close> or, without it, from \<open>USER\<close>.\<close>

definition expected_log_path :: "environ \<Rightarrow> path" where
  "expected_log_path env =
     (let localappdata =
        (case env (ustr ''LOCALAPPDATA'') of
           None \<Rightarrow> []
         | Some v \<Rightarrow> v);
          localappdata =
        (if localappdata = []
         then (let user = (case env (ustr ''USER'') of
                             None \<Rightarrow> ustr ''Unknown''
                           | Some u \<Rightarrow> u)
               in ustr ''/mnt/c/Users/'' @ user @ ustr ''/AppData/Local'')
         else localappdata)
      in [localappdata, ustr ''Unity'', ustr ''Editor'', ustr ''Editor.log''])"

definition get_editor_log_path :: "environ \<Rightarrow> filesystem \<Rightarrow> exn + path option" where
  "get_editor_log_path env fs =
     (case path_exists fs (expected_log_path env) of
        Inl e \<Rightarrow> Inl e
      | Inr found \<Rightarrow>
          if \<not> found then Inr None
          else Inr (Some (expected_log_path env)))"

text \<open>
  \<open>parse_compilation_logs\<close>, lines 90 to 143: what the \<open>try\<close> does with the lines read.
\<close>

definition parse_log_lines :: "pystr list \<Rightarrow> exn + pydict" where
  "parse_log_lines lines =
     (case scan_back (ustr ''EditorCompilation:InvokeCompilationStarted'') lines
             (int (length lines) - 1) (- 1) of
        Inl e \<Rightarrow> Inl e
      | Inr compilation_start_index \<Rightarrow>
        if compilation_start_index = - 1 then
          Inr [(ustr ''success'', PBool False),
               (ustr ''message'',
                PStr (ustr ''EditorCompilation:InvokeCompilationStarted marker not found'')),
               (ustr ''compilation_logs'', PList [])]
        else
        (case scan_back (ustr ''* Tundra'') lines
                (int (length lines) - 1) compilation_start_index of
           Inl e \<Rightarrow> Inl e
         | Inr tundra_index \<Rightarrow>
           if tundra_index = - 1 then
             Inr [(ustr ''success'', PBool False),
                  (ustr ''message'',
                   PStr (ustr ''* Tundra not found after EditorCompilation:InvokeCompilationStarted'')),
                  (ustr ''compilation_logs'', PList [])]
           else
           (case scan_back (ustr ''# Output'') lines
                   (tundra_index - 1) compilation_start_index of
              Inl e \<Rightarrow> Inl e
            | Inr output_start_index \<Rightarrow>
              if output_start_index = - 1 then
                Inr [(ustr ''success'', PBool True),
                     (ustr ''message'',
                      PStr (ustr ''No errors found in this compilation. (# Output not found before * Tundra (from ''
                            @ str_int compilation_start_index @ ustr '' to ''
                            @ str_int tundra_index @ ustr ''))'')),
                     (ustr ''compilation_logs'', PList [])]
              else
              (case collect lines (output_start_index + 1) tundra_index [] of
                 Inl e \<Rightarrow> Inl e
               | Inr compilation_logs \<Rightarrow>
                   Inr [(ustr ''success'', PBool True),
                        (ustr ''message'',
                         PStr (ustr ''Successfully read ''
                               @ str_nat (length compilation_logs)
                               @ ustr '' compilation records (from ''
                               @ str_int output_start_index @ ustr '' to ''
                               @ str_int tundra_index @ ustr '')'')),
                        (ustr ''compilation_logs'', PList (map PStr compilation_logs))]))))"

definition parse_compilation_logs :: "filesystem \<Rightarrow> path \<Rightarrow> exn + pydict" where
  "parse_compilation_logs fs editor_log_path =
     (case (case readlines fs editor_log_path of
              Inl e \<Rightarrow> Inl e
            | Inr lines \<Rightarrow> parse_log_lines lines) of
        Inl e \<Rightarrow>
          Inr [(ustr ''success'', PBool False),
               (ustr ''message'', PStr (ustr ''Error reading log: '' @ str_exn e)),
               (ustr ''compilation_logs'', PList [])]
      | Inr result \<Rightarrow> Inr result)"

text \<open>\<open>UnityCompileCore.compile_project\<close>: the body of the \<open>try\<close>, then the function.\<close>

definition compile_project_body ::
  "connection option \<Rightarrow> bool \<Rightarrow> (exn + connection option) \<Rightarrow> environ \<Rightarrow> filesystem
     \<Rightarrow> exn + pydict" where
  "compile_project_body unity_connection skip_trigger get_unity_connection env fs =
     (case (if \<not> skip_trigger
            then trigger_compilation_via_unity unity_connection get_unity_connection
            else Inr False) of
        Inl e \<Rightarrow> Inl e
      | Inr triggered \<Rightarrow>
          (case get_editor_log_path env fs of
             Inl e \<Rightarrow> Inl e
           | Inr None \<Rightarrow>
               Inr [(ustr ''success'', PBool False),
                    (ustr ''message'', PStr (ustr ''Unity Editor.log not found'')),
                    (ustr ''compilation_logs'', PList [])]
           | Inr (Some editor_log_path) \<Rightarrow>
               (case parse_compilation_logs fs editor_log_path of
                  Inl e \<Rightarrow> Inl e
                | Inr result \<Rightarrow>
                    (case py_item result (ustr ''success'') of
                       Inl e \<Rightarrow> Inl e
                     | Inr success \<Rightarrow>
                         (case py_item result (ustr ''message'') of
                            Inl e \<Rightarrow> Inl e
                          | Inr message \<Rightarrow> Inr result)))))"

definition compile_project ::
  "connection option \<Rightarrow> bool \<Rightarrow> (exn + connection option) \<Rightarrow> environ \<Rightarrow> filesystem
     \<Rightarrow> exn + pydict" where
  "compile_project unity_connection skip_trigger get_unity_connection env fs =
     (case compile_project_body unity_connection skip_trigger get_unity_connection env fs of
        Inl e \<Rightarrow>
          Inr [(ustr ''success'', PBool False),
               (ustr ''message'', PStr (ustr ''Compilation error: '' @ str_exn e)),
               (ustr ''compilation_logs'', PList [])]
      | Inr result \<Rightarrow> Inr result)"

section \<open>server.py\<close>

subsection \<open>The \<open>compile_project\<close> tool\<close>

text \<open>
  Lines 243 to 296 of the tool: the same scan as in the core module, written out a
  second time in the source.
\<close>

definition tool_parse_log_lines :: "pystr list \<Rightarrow> exn + pydict" where
  "tool_parse_log_lines lines =
     (case scan_back (ustr ''EditorCompilation:InvokeCompilationStarted'') lines
             (int (length lines) - 1) (- 1) of
        Inl e \<Rightarrow> Inl e
      | Inr compilation_start_index \<Rightarrow>
        if compilation_start_index = - 1 then
          Inr [(ustr ''success'', PBool False),
               (ustr ''message'',
                PStr (ustr ''EditorCompilation:InvokeCompilationStarted marker not found'')),
               (ustr ''compilation_logs'', PList [])]
        else
        (case scan_back (ustr ''* Tundra'') lines
                (int (length lines) - 1) compilation_start_index of
           Inl e \<Rightarrow> Inl e
         | Inr tundra_index \<Rightarrow>
           if tundra_index = - 1 then
             Inr [(ustr ''success'', PBool False),
                  (ustr ''message'',
                   PStr (ustr ''* Tundra not found after EditorCompilation:InvokeCompilationStarted'')),
                  (ustr ''compilation_logs'', PList [])]
           else
           (case scan_back (ustr ''# Output'') lines
                   (tundra_index - 1) compilation_start_index of
              Inl e \<Rightarrow> Inl e
            | Inr output_start_index \<Rightarrow>
              if output_start_index = - 1 then
                Inr [(ustr ''success'', PBool False),
                     (ustr ''message'',
                      PStr (ustr ''# Output not found before * Tundra from ''
                            @ str_int compilation_start_index @ ustr '' to ''
                            @ str_int tundra_index)),
                     (ustr ''compilation_logs'', PList [])]
              else
              (case collect lines (output_start_index + 1) tundra_index [] of
                 Inl e \<Rightarrow> Inl e
               | Inr compilation_logs \<Rightarrow>
                   Inr [(ustr ''success'', PBool True),
                        (ustr ''message'',
                         PStr (ustr ''Successfully read ''
                               @ str_nat (length compilation_logs)
                               @ ustr '' lines of compilation records from ''
                               @ str_int output_start_index @ ustr '' to ''
                               @ str_int tundra_index)),
                        (ustr ''compilation_logs'', PList (map PStr compilation_logs))]))))"

text \<open>
  The whole tool. \<open>ctx_bridge\<close> is \<open>getattr(ctx, 'bridge', None)\<close>, \<open>None\<close> when the
  attribute is missing or falsy.
\<close>

definition compile_project_tool_body ::
  "connection option \<Rightarrow> (exn + connection option) \<Rightarrow> environ \<Rightarrow> filesystem
     \<Rightarrow> exn + pydict" where
  "compile_project_tool_body ctx_bridge get_unity_connection env fs =
     (case (case ctx_bridge of
              None \<Rightarrow> get_unity_connection
            | Some b \<Rightarrow> Inr (Some b)) of
        Inl e \<Rightarrow> Inl e
      | Inr bridge \<Rightarrow>
          (case (case bridge of
                   None \<Rightarrow> Inr ()
                 | Some conn \<Rightarrow>
                     (case conn (ustr ''project_files_refresher'') [] of
                        Inl e \<Rightarrow> Inl e
                      | Inr refresh_response \<Rightarrow>
                          (case py_get refresh_response (ustr ''success'') PNone of
                             Inl e \<Rightarrow> Inl e
                           | Inr success \<Rightarrow> Inr ()))) of
             Inl e \<Rightarrow> Inl e
           | Inr _ \<Rightarrow>
               (case path_exists fs (expected_log_path env) of
                  Inl e \<Rightarrow> Inl e
                | Inr found \<Rightarrow>
                    if \<not> found then
                      Inr [(ustr ''success'', PBool False),
                           (ustr ''message'', PStr (ustr ''Unity Editor.log not found'')),
                           (ustr ''compilation_logs'', PList [])]
                    else
                      (case readlines fs (expected_log_path env) of
                         Inl e \<Rightarrow> Inl e
                       | Inr lines \<Rightarrow> tool_parse_log_lines lines))))"

definition compile_project_tool ::
  "connection option \<Rightarrow> (exn + connection option) \<Rightarrow> environ \<Rightarrow> filesystem
     \<Rightarrow> exn + pydict" where
  "compile_project_tool ctx_bridge get_unity_connection env fs =
     (case compile_project_tool_body ctx_bridge get_unity_connection env fs of
        Inl e \<Rightarrow>
          Inr [(ustr ''success'', PBool False),
               (ustr ''message'', PStr (ustr ''Error reading log: '' @ str_exn e)),
               (ustr ''compilation_logs'', PList [])]
      | Inr result \<Rightarrow> Inr result)"

subsection \<open>Dynamically registered tools\<close>

text \<open>
  The dynamic tools are the boundary to the protocol host. What their collaborators
  raise is either an exception of class \<open>Exception\<close> or one outside it
  (\<open>KeyboardInterrupt\<close>, \<open>SystemExit\<close>), given by its class name; \<open>except Exception\<close>
  catches the first kind only.
\<close>

datatype thrown = Of_Exception exn | Not_Exception pystr

type_synonym tool_connection = "pystr \<Rightarrow> pydict \<Rightarrow> thrown + pyval"

text \<open>
  \<open>tool_func\<close>, the closure built for one command type: the body of its \<open>try\<close>, then the
  function with its \<open>except Exception\<close>. \<open>ctx_bridge\<close> is \<open>getattr(ctx, 'bridge', None)\<close>,
  \<open>None\<close> when the attribute is missing or falsy.
\<close>

definition tool_func_body ::
  "pystr \<Rightarrow> tool_connection option \<Rightarrow> (thrown + tool_connection option) \<Rightarrow> pydict
     \<Rightarrow> thrown + pydict" where
  "tool_func_body cmd_type ctx_bridge get_unity_connection kwargs =
     (case (case ctx_bridge of
              None \<Rightarrow> get_unity_connection
            | Some b \<Rightarrow> Inr (Some b)) of
        Inl t \<Rightarrow> Inl t
      | Inr None \<Rightarrow>
          Inr [(ustr ''success'', PBool False),
               (ustr ''message'', PStr (ustr ''Unity connection not available''))]
      | Inr (Some bridge) \<Rightarrow>
          (case bridge cmd_type kwargs of
             Inl t \<Rightarrow> Inl t
           | Inr response \<Rightarrow>
               (case py_get response (ustr ''success'') PNone of
                  Inl e \<Rightarrow> Inl (Of_Exception e)
                | Inr success \<Rightarrow>
                    if truthy success then
                      (case py_get response (ustr ''message'')
                              (PStr (ustr ''Operation successful'')) of
                         Inl e \<Rightarrow> Inl (Of_Exception e)
                       | Inr message \<Rightarrow>
                           (case py_get response (ustr ''data'') PNone of
                              Inl e \<Rightarrow> Inl (Of_Exception e)
                            | Inr data \<Rightarrow>
                                Inr [(ustr ''success'', PBool True),
                                     (ustr ''message'', message),
                                     (ustr ''data'', data)]))
                    else
                      (case py_get response (ustr ''error'')
                              (PStr (ustr ''Unknown error'')) of
                         Inl e \<Rightarrow> Inl (Of_Exception e)
                       | Inr message \<Rightarrow>
                           Inr [(ustr ''success'', PBool False),
                                (ustr ''message'', message)]))))"

definition tool_func ::
  "pystr \<Rightarrow> tool_connection option \<Rightarrow> (thrown + tool_connection option) \<Rightarrow> pydict
     \<Rightarrow> thrown + pydict" where
  "tool_func cmd_type ctx_bridge get_unity_connection kwargs =
     (case tool_func_body cmd_type ctx_bridge get_unity_connection kwargs of
        Inl (Of_Exception e) \<Rightarrow>
          Inr [(ustr ''success'', PBool False),
               (ustr ''message'', PStr (ustr ''Error: '' @ str_exn e))]
      | Inl (Not_Exception n) \<Rightarrow> Inl (Not_Exception n)
      | Inr result \<Rightarrow> Inr result)"

text \<open>
  The call \<open>tool_func(ctx, **arguments)\<close>. The signature is \<open>(ctx, **kwargs)\<close>: when the
  argument map holds the key \<open>ctx\<close> the parameter gets two values and the call raises
  \<open>TypeError\<close> before the body, and so before its \<open>try\<close>, is entered; the message
  names the function by its qualified name. Otherwise \<open>kwargs\<close> is the argument map.
\<close>

definition call_tool_func ::
  "pystr \<Rightarrow> tool_connection option \<Rightarrow> (thrown + tool_connection option) \<Rightarrow> pydict
     \<Rightarrow> thrown + pydict" where
  "call_tool_func cmd_type ctx_bridge get_unity_connection arguments =
     (if ustr ''ctx'' \<in> fst ` set arguments then
        Inl (Of_Exception (TypeError
          (ustr (''register_dynamic_unity_tools.<locals>.make_tool_func.<locals>.tool_func()''
                 @ '' got multiple values for argument '' @ [CHR 0x27] @ ''ctx''
                 @ [CHR 0x27]))))
      else tool_func cmd_type ctx_bridge get_unity_connection arguments)"

text \<open>\<open>d.get(k1) or d.get(k2, default)\<close>, the lookup under either casing of a field.\<close>

definition get_either :: "pyval \<Rightarrow> pystr \<Rightarrow> pystr \<Rightarrow> pyval \<Rightarrow> exn + pyval" where
  "get_either d k1 k2 dflt =
     (case py_get d k1 PNone of
        Inl e \<Rightarrow> Inl e
      | Inr a \<Rightarrow> if truthy a then Inr a else py_get d k2 dflt)"

text \<open>\<open>for x in v\<close>: the items a loop over the value visits.\<close>

fun py_iter :: "pyval \<Rightarrow> exn + pyval list" where
  "py_iter (PList xs) = Inr xs"
| "py_iter (PDict kvs) = Inr (map (\<lambda>kv. PStr (fst kv)) kvs)"
| "py_iter (PStr s) = Inr (map (\<lambda>c. PStr [c]) s)"
| "py_iter v =
     Inl (TypeError (ustr [CHR 0x27] @ type_name v
                     @ ustr (CHR 0x27 # '' object is not iterable'')))"

text \<open>\<open>s.lower()\<close> and \<open>s.replace('-', '_')\<close>: only a string has these methods.\<close>

fun py_lower :: "pyval \<Rightarrow> exn + unit" where
  "py_lower (PStr s) = Inr ()"
| "py_lower v = Inl (AttributeError (type_name v) (ustr ''lower''))"

fun py_replace_dash :: "pyval \<Rightarrow> exn + pystr" where
  "py_replace_dash (PStr s) = Inr (replace_char 0x2D 0x5F s)"
| "py_replace_dash v = Inl (AttributeError (type_name v) (ustr ''replace''))"

text \<open>A list or a dictionary cannot be a dictionary key.\<close>

fun hashable :: "pyval \<Rightarrow> bool" where
  "hashable (PList _) = False"
| "hashable (PDict _) = False"
| "hashable _ = True"

text \<open>
  One round of the loop over \<open>params_info\<close> in \<open>make_tool_func\<close>. The names, types and
  documentation lines it gathers are not used by the tool; what remains is whether
  the round raises.
\<close>

definition param_round :: "pyval \<Rightarrow> exn + unit" where
  "param_round param =
     (case get_either param (ustr ''Name'') (ustr ''name'') (PStr (ustr ''unknown'')) of
        Inl e \<Rightarrow> Inl e
      | Inr param_name \<Rightarrow>
          (case get_either param (ustr ''Type'') (ustr ''type'') (PStr (ustr ''str'')) of
             Inl e \<Rightarrow> Inl e
           | Inr param_type \<Rightarrow>
               (case py_lower param_type of
                  Inl e \<Rightarrow> Inl e
                | Inr _ \<Rightarrow>
                    if hashable param_name then Inr ()
                    else Inl (TypeError (ustr (''unhashable type: '' @ [CHR 0x27])
                                         @ type_name param_name @ ustr [CHR 0x27])))))"

fun param_rounds :: "pyval list \<Rightarrow> exn + unit" where
  "param_rounds [] = Inr ()"
| "param_rounds (param # params) =
     (case param_round param of
        Inl e \<Rightarrow> Inl e
      | Inr _ \<Rightarrow> param_rounds params)"

text \<open>
  \<open>make_tool_func\<close> returns the closure; the model returns its \<open>__name__\<close>. The command
  type the closure captures is the argument itself.
\<close>

definition make_tool_func :: "pyval \<Rightarrow> pyval \<Rightarrow> pyval \<Rightarrow> exn + pystr" where
  "make_tool_func cmd_type desc params_info =
     (case py_iter params_info of
        Inl e \<Rightarrow> Inl e
      | Inr params \<Rightarrow>
          (case param_rounds params of
             Inl e \<Rightarrow> Inl e
           | Inr _ \<Rightarrow> py_replace_dash cmd_type))"

text \<open>
  A call \<open>mcp.add_tool(tool_func, name=tool_name, description=description)\<close>: the name
  under which the host exposes the operation, its description, the \<open>__name__\<close> of the
  closure and the command type the closure sends.
\<close>

record registration =
  reg_name :: pystr
  reg_description :: pyval
  reg_func_name :: pystr
  reg_command_type :: pyval

text \<open>
  The \<open>try\<close> of one round of the loop in \<open>register_dynamic_unity_tools\<close>: \<open>None\<close> when
  the descriptor is skipped by \<open>continue\<close>, otherwise the call of \<open>add_tool\<close>.
\<close>

definition register_round :: "pyval \<Rightarrow> exn + registration option" where
  "register_round tool_meta =
     (case get_either tool_meta (ustr ''CommandType'') (ustr ''commandType'') PNone of
        Inl e \<Rightarrow> Inl e
      | Inr command_type \<Rightarrow>
          (case get_either tool_meta (ustr ''Description'') (ustr ''description'')
                  (PStr []) of
             Inl e \<Rightarrow> Inl e
           | Inr description \<Rightarrow>
               (case get_either tool_meta (ustr ''Parameters'') (ustr ''parameters'')
                       (PList []) of
                  Inl e \<Rightarrow> Inl e
                | Inr parameters \<Rightarrow>
                    if \<not> truthy command_type then Inr None
                    else
                      (case make_tool_func command_type description parameters of
                         Inl e \<Rightarrow> Inl e
                       | Inr func_name \<Rightarrow>
                           (case py_replace_dash command_type of
                              Inl e \<Rightarrow> Inl e
                            | Inr tool_name \<Rightarrow>
                                Inr (Some \<lparr>reg_name = tool_name,
                                           reg_description = description,
                                           reg_func_name = func_name,
                                           reg_command_type = command_type\<rparr>))))))"

text \<open>
  The loop. The handler of a round formats \<open>command_type\<close> into its log line; the
  variable is bound once a round has got past its first statement, which it does
  exactly when the descriptor is a dictionary. Before that the handler itself raises
  and the loop is left. The result is the calls of \<open>add_tool\<close> made, in order, and the
  exception that ended the loop, if one did.
\<close>

fun register_loop :: "bool \<Rightarrow> pyval list \<Rightarrow> registration list \<times> exn option" where
  "register_loop bound [] = ([], None)"
| "register_loop bound (tool_meta # rest) =
     (case register_round tool_meta of
        Inl e \<Rightarrow>
          if bound \<or> is_dict tool_meta then register_loop True rest
          else ([], Some (UnboundLocalError (ustr ''command_type'')))
      | Inr None \<Rightarrow> register_loop True rest
      | Inr (Some r) \<Rightarrow>
          (case register_loop True rest of (rs, x) \<Rightarrow> (r # rs, x)))"

definition register_dynamic_unity_tools :: "pyval list \<Rightarrow> registration list \<times> exn option" where
  "register_dynamic_unity_tools tools_metadata = register_loop False tools_metadata"

section \<open>Literals\<close>

lemma ustr_eq_iff: "(ustr a = ustr b) = (a = b)"
  by (simp add: ustr_def inj_map_eq_map inj_on_def)

lemma ustr_Nil_iff [simp]: "(ustr s = []) = (s = [])"
  by (simp add: ustr_def)

lemma ustr_append: "ustr a @ ustr b = ustr (a @ b)"
  by (simp add: ustr_def)

section \<open>What the string operations compute\<close>

lemma starts_with_iff: "starts_with m l = (\<exists>s. l = m @ s)"
  by (induction m l rule: starts_with.induct) auto

lemma contains_iff: "contains m l = (\<exists>p s. l = p @ m @ s)"
proof (induction l)
  case Nil
  then show ?case by simp
next
  case (Cons y ys)
  show ?case
  proof
    assume "contains m (y # ys)"
    then consider "starts_with m (y # ys)" | "contains m ys" by auto
    then show "\<exists>p s. y # ys = p @ m @ s"
    proof cases
      case 1
      then obtain s where "y # ys = m @ s" by (auto simp: starts_with_iff)
      then have "y # ys = [] @ m @ s" by simp
      then show ?thesis by blast
    next
      case 2
      with Cons.IH obtain p s where "ys = p @ m @ s" by blast
      then have "y # ys = (y # p) @ m @ s" by simp
      then show ?thesis by blast
    qed
  next
    assume "\<exists>p s. y # ys = p @ m @ s"
    then obtain p s where e: "y # ys = p @ m @ s" by blast
    show "contains m (y # ys)"
    proof (cases p)
      case Nil
      with e have "starts_with m (y # ys)" by (auto simp: starts_with_iff)
      then show ?thesis by simp
    next
      case (Cons a p')
      with e have "ys = p' @ m @ s" by simp
      with Cons.IH have "contains m ys" by blast
      then show ?thesis by simp
    qed
  qed
qed

lemma strip_splits:
  "\<exists>p q. s = p @ strip s @ q \<and> (\<forall>c\<in>set p. is_space c) \<and> (\<forall>c\<in>set q. is_space c)"
proof -
  let ?p = "takeWhile is_space s"
  let ?t = "dropWhile is_space s"
  let ?q = "rev (takeWhile is_space (rev ?t))"
  have "rev (takeWhile is_space (rev ?t) @ dropWhile is_space (rev ?t)) = rev (rev ?t)"
    by (simp only: takeWhile_dropWhile_id)
  then have "?t = strip s @ ?q"
    by (simp only: rev_append rev_rev_ident strip_def)
  moreover have "s = ?p @ ?t" by simp
  ultimately have "s = ?p @ strip s @ ?q" by simp
  moreover have "\<forall>c\<in>set ?p. is_space c" by (auto dest: set_takeWhileD)
  moreover have "\<forall>c\<in>set ?q. is_space c" by (auto dest: set_takeWhileD)
  ultimately show ?thesis by blast
qed

lemma strip_ends:
  assumes "strip s \<noteq> []"
  shows "\<not> is_space (hd (strip s)) \<and> \<not> is_space (last (strip s))"
proof -
  let ?t = "dropWhile is_space s"
  let ?u = "dropWhile is_space (rev ?t)"
  from assms have u: "?u \<noteq> []" by (simp add: strip_def)
  then have 1: "\<not> is_space (hd ?u)" by (rule hd_dropWhile)
  from u have l: "last (strip s) = hd ?u" by (simp add: strip_def last_rev)
  have t: "?t \<noteq> []"
  proof
    assume e: "?t = []"
    have "?u = []" unfolding e by simp
    with u show False by simp
  qed
  then have 2: "\<not> is_space (hd ?t)" by (rule hd_dropWhile)
  have "rev ?t = takeWhile is_space (rev ?t) @ ?u" by simp
  with u have "last (rev ?t) = last ?u" by (metis last_appendR)
  with t have "last ?u = hd ?t" by (simp add: last_rev)
  with u have "hd (strip s) = hd ?t" by (simp add: strip_def hd_rev)
  with 1 2 l show ?thesis by simp
qed

section \<open>The scans never leave the list\<close>

lemma py_index_in_range:
  "0 \<le> i \<Longrightarrow> i < int (length xs) \<Longrightarrow> py_index xs i = Inr (xs ! nat i)"
  by (simp add: py_index_def)

lemma scan_back_found:
  "- 1 \<le> stop \<Longrightarrow> stop < k \<Longrightarrow> k \<le> i \<Longrightarrow> i < int (length lines)
   \<Longrightarrow> contains m (lines ! nat k)
   \<Longrightarrow> (\<forall>j. k < j \<and> j \<le> i \<longrightarrow> \<not> contains m (lines ! nat j))
   \<Longrightarrow> scan_back m lines i stop = Inr k"
proof (induction m lines i stop rule: scan_back.induct)
  case (1 marker lines i stop)
  have idx: "py_index lines i = Inr (lines ! nat i)"
    using 1 by (intro py_index_in_range) auto
  show ?case
  proof (cases "i = k")
    case True
    with 1 idx show ?thesis by (subst scan_back.simps) simp
  next
    case False
    with 1 have nc: "\<not> contains marker (lines ! nat i)" by auto
    have "scan_back marker lines (i - 1) stop = Inr k"
      using 1 False idx nc by (intro "1.IH"[of "lines ! nat i"]) auto
    with 1 idx nc show ?thesis by (subst scan_back.simps) simp
  qed
qed

lemma scan_back_none:
  "- 1 \<le> stop \<Longrightarrow> i < int (length lines)
   \<Longrightarrow> (\<forall>j. stop < j \<and> j \<le> i \<longrightarrow> \<not> contains m (lines ! nat j))
   \<Longrightarrow> scan_back m lines i stop = Inr (- 1)"
proof (induction m lines i stop rule: scan_back.induct)
  case (1 marker lines i stop)
  show ?case
  proof (cases "i \<le> stop")
    case True
    then show ?thesis by (subst scan_back.simps) simp
  next
    case False
    have idx: "py_index lines i = Inr (lines ! nat i)"
      using 1 False by (intro py_index_in_range) auto
    from 1 False have nc: "\<not> contains marker (lines ! nat i)" by auto
    have "scan_back marker lines (i - 1) stop = Inr (- 1)"
      using 1 False idx nc by (intro "1.IH"[of "lines ! nat i"]) auto
    with False idx nc show ?thesis by (subst scan_back.simps) simp
  qed
qed

lemma scan_back_total:
  "- 1 \<le> stop \<Longrightarrow> i < int (length lines)
   \<Longrightarrow> \<exists>r. scan_back m lines i stop = Inr r
          \<and> (r = - 1 \<or> (stop < r \<and> r \<le> i \<and> contains m (lines ! nat r)))"
proof (induction m lines i stop rule: scan_back.induct)
  case (1 marker lines i stop)
  show ?case
  proof (cases "i \<le> stop")
    case True
    then show ?thesis by (subst scan_back.simps) simp
  next
    case False
    have idx: "py_index lines i = Inr (lines ! nat i)"
      using 1 False by (intro py_index_in_range) auto
    show ?thesis
    proof (cases "contains marker (lines ! nat i)")
      case True
      with False idx show ?thesis by (subst scan_back.simps) simp
    next
      case nc: False
      have "\<exists>r. scan_back marker lines (i - 1) stop = Inr r
          \<and> (r = - 1 \<or> (stop < r \<and> r \<le> i - 1 \<and> contains marker (lines ! nat r)))"
        using 1 False idx nc by (intro "1.IH"[of "lines ! nat i"]) auto
      then obtain r where "scan_back marker lines (i - 1) stop = Inr r"
        "r = - 1 \<or> (stop < r \<and> r \<le> i - 1 \<and> contains marker (lines ! nat r))" by blast
      with False idx nc show ?thesis by (subst scan_back.simps) auto
    qed
  qed
qed

lemma collect_eq:
  "0 \<le> i \<Longrightarrow> stop \<le> int (length lines)
   \<Longrightarrow> collect lines i stop logs =
       Inr (logs @ filter (\<lambda>l. l \<noteq> []) (map strip (take (nat (stop - i)) (drop (nat i) lines))))"
proof (induction lines i stop logs rule: collect.induct)
  case (1 lines i stop logs)
  show ?case
  proof (cases "stop \<le> i")
    case True
    then show ?thesis by (subst collect.simps) simp
  next
    case False
    have idx: "py_index lines i = Inr (lines ! nat i)"
      using 1 False by (intro py_index_in_range) auto
    let ?logs' = "if strip (lines ! nat i) \<noteq> [] then logs @ [strip (lines ! nat i)] else logs"
    have IH: "collect lines (i + 1) stop ?logs' =
       Inr (?logs' @ filter (\<lambda>l. l \<noteq> []) (map strip (take (nat (stop - (i + 1))) (drop (nat (i + 1)) lines))))"
      using 1 False idx by (intro "1.IH"[of "lines ! nat i" "strip (lines ! nat i)"]) auto
    have len: "nat i < length lines" using 1 False by auto
    have n: "nat (stop - i) = Suc (nat (stop - (i + 1)))" using False by auto
    have d: "drop (nat i) lines = lines ! nat i # drop (nat (i + 1)) lines"
      using len 1(2) by (simp add: Cons_nth_drop_Suc nat_add_distrib)
    show ?thesis
      apply (subst collect.simps)
      using False idx IH apply (simp add: Let_def n d del: take_Suc_Cons)
      apply (simp)
      done
  qed
qed

lemma take_drop_upt:
  "b \<le> length xs \<Longrightarrow> take (b - a) (drop a xs) = map ((!) xs) [a..<b]"
  by (rule nth_equalityI) auto

lemma collect_window:
  assumes "o' < t" "t \<le> length lines"
  shows "collect lines (int o' + 1) (int t) [] =
           Inr (filter (\<lambda>l. l \<noteq> []) (map (\<lambda>i. strip (lines ! i)) [Suc o'..<t]))"
proof -
  have "collect lines (int o' + 1) (int t) [] =
          Inr ([] @ filter (\<lambda>l. l \<noteq> [])
                 (map strip (take (nat (int t - (int o' + 1))) (drop (nat (int o' + 1)) lines))))"
    using assms by (intro collect_eq) auto
  moreover have "nat (int t - (int o' + 1)) = t - Suc o'" "nat (int o' + 1) = Suc o'"
    by auto
  ultimately show ?thesis
    using assms by (simp add: take_drop_upt comp_def)
qed

lemma scan_last:
  assumes "k < length lines" "contains m (lines ! k)"
    and "\<forall>j\<in>{k<..<length lines}. \<not> contains m (lines ! j)"
    and "- 1 \<le> stop" "stop < int k"
  shows "scan_back m lines (int (length lines) - 1) stop = Inr (int k)"
proof (rule scan_back_found)
  show "\<forall>j. int k < j \<and> j \<le> int (length lines) - 1 \<longrightarrow> \<not> contains m (lines ! nat j)"
  proof (intro allI impI)
    fix j assume "int k < j \<and> j \<le> int (length lines) - 1"
    then have "nat j \<in> {k<..<length lines}" by auto
    with assms(3) show "\<not> contains m (lines ! nat j)" by blast
  qed
qed (use assms in auto)

lemma scan_last_before:
  assumes "k < t" "t \<le> length lines" "contains m (lines ! k)"
    and "\<forall>j\<in>{k<..<t}. \<not> contains m (lines ! j)"
    and "- 1 \<le> stop" "stop < int k"
  shows "scan_back m lines (int t - 1) stop = Inr (int k)"
proof (rule scan_back_found)
  show "\<forall>j. int k < j \<and> j \<le> int t - 1 \<longrightarrow> \<not> contains m (lines ! nat j)"
  proof (intro allI impI)
    fix j assume "int k < j \<and> j \<le> int t - 1"
    then have "nat j \<in> {k<..<t}" by auto
    with assms(4) show "\<not> contains m (lines ! nat j)" by blast
  qed
qed (use assms in auto)

lemma scan_absent:
  assumes "t \<le> length lines" "- 1 \<le> stop"
    and "\<forall>j<t. stop < int j \<longrightarrow> \<not> contains m (lines ! j)"
  shows "scan_back m lines (int t - 1) stop = Inr (- 1)"
proof (rule scan_back_none)
  show "\<forall>j. stop < j \<and> j \<le> int t - 1 \<longrightarrow> \<not> contains m (lines ! nat j)"
  proof (intro allI impI)
    fix j assume "stop < j \<and> j \<le> int t - 1"
    then have "nat j < t" "stop < int (nat j)" using assms(2) by auto
    with assms(3) show "\<not> contains m (lines ! nat j)" by blast
  qed
qed (use assms in auto)

lemma start_absent:
  assumes "\<forall>l\<in>set lines. \<not> contains m l"
  shows "scan_back m lines (int (length lines) - 1) (- 1) = Inr (- 1)"
  using assms by (intro scan_absent) auto

section \<open>Log extraction\<close>

subsection \<open>The window of the most recent session\<close>

text \<open>
  Claim C1. Let \<open>s\<close> be the last line with the start marker, \<open>t\<close> the last line with the
  section marker, after \<open>s\<close>, and \<open>o'\<close> the last line with the output marker between the
  two. Then the extractor of the core module and that of the server tool both succeed,
  and their entries are the stripped lines strictly between \<open>o'\<close> and \<open>t\<close> that are not
  empty, in the order of the log.
\<close>

theorem window_entries:
  assumes "s < o'" "o' < t" "t < length lines"
    and "contains (ustr ''EditorCompilation:InvokeCompilationStarted'') (lines ! s)"
    and "\<forall>j\<in>{s<..<length lines}.
           \<not> contains (ustr ''EditorCompilation:InvokeCompilationStarted'') (lines ! j)"
    and "contains (ustr ''* Tundra'') (lines ! t)"
    and "\<forall>j\<in>{t<..<length lines}. \<not> contains (ustr ''* Tundra'') (lines ! j)"
    and "contains (ustr ''# Output'') (lines ! o')"
    and "\<forall>j\<in>{o'<..<t}. \<not> contains (ustr ''# Output'') (lines ! j)"
  shows "(let entries = filter (\<lambda>l. l \<noteq> []) (map (\<lambda>i. strip (lines ! i)) [Suc o'..<t])
          in parse_log_lines lines =
               Inr [(ustr ''success'', PBool True),
                    (ustr ''message'',
                     PStr (ustr ''Successfully read '' @ str_nat (length entries)
                           @ ustr '' compilation records (from '' @ str_nat o'
                           @ ustr '' to '' @ str_nat t @ ustr '')'')),
                    (ustr ''compilation_logs'', PList (map PStr entries))]
           \<and> tool_parse_log_lines lines =
               Inr [(ustr ''success'', PBool True),
                    (ustr ''message'',
                     PStr (ustr ''Successfully read '' @ str_nat (length entries)
                           @ ustr '' lines of compilation records from '' @ str_nat o'
                           @ ustr '' to '' @ str_nat t)),
                    (ustr ''compilation_logs'', PList (map PStr entries))])"
proof -
  have S: "scan_back (ustr ''EditorCompilation:InvokeCompilationStarted'') lines
             (int (length lines) - 1) (- 1) = Inr (int s)"
    using assms by (intro scan_last) auto
  have T: "scan_back (ustr ''* Tundra'') lines (int (length lines) - 1) (int s) = Inr (int t)"
    using assms by (intro scan_last) auto
  have O: "scan_back (ustr ''# Output'') lines (int t - 1) (int s) = Inr (int o')"
    using assms by (intro scan_last_before) auto
  have C: "collect lines (int o' + 1) (int t) [] =
           Inr (filter (\<lambda>l. l \<noteq> []) (map (\<lambda>i. strip (lines ! i)) [Suc o'..<t]))"
    using assms by (intro collect_window) auto
  show ?thesis
    by (simp add: parse_log_lines_def tool_parse_log_lines_def S T O C str_int_def Let_def)
qed

theorem window_entries_witness:
  "parse_log_lines
     [ustr ''...'', ustr ''EditorCompilation:InvokeCompilationStarted'', ustr ''...'',
      ustr ''# Output'', ustr ''ErrorA'', ustr '''', ustr ''ErrorB'', ustr ''* Tundra ...'']
   = Inr [(ustr ''success'', PBool True),
          (ustr ''message'',
           PStr (ustr ''Successfully read 2 compilation records (from 3 to 7)'')),
          (ustr ''compilation_logs'', PList [PStr (ustr ''ErrorA''), PStr (ustr ''ErrorB'')])]
   \<and> tool_parse_log_lines
     [ustr ''...'', ustr ''EditorCompilation:InvokeCompilationStarted'', ustr ''...'',
      ustr ''# Output'', ustr ''ErrorA'', ustr '''', ustr ''ErrorB'', ustr ''* Tundra ...'']
   = Inr [(ustr ''success'', PBool True),
          (ustr ''message'',
           PStr (ustr ''Successfully read 2 lines of compilation records from 3 to 7'')),
          (ustr ''compilation_logs'', PList [PStr (ustr ''ErrorA''), PStr (ustr ''ErrorB'')])]"
proof -
  let ?lines = "[ustr ''...'', ustr ''EditorCompilation:InvokeCompilationStarted'', ustr ''...'',
      ustr ''# Output'', ustr ''ErrorA'', ustr '''', ustr ''ErrorB'', ustr ''* Tundra ...'']"
  have i: "(1::nat) < 3" "(3::nat) < 7" "7 < length ?lines" by simp_all
  have a: "contains (ustr ''EditorCompilation:InvokeCompilationStarted'') (?lines ! 1)"
    by (simp add: ustr_def)
  have b: "\<forall>j\<in>{1<..<length ?lines}.
             \<not> contains (ustr ''EditorCompilation:InvokeCompilationStarted'') (?lines ! j)"
    by code_simp
  have c: "contains (ustr ''* Tundra'') (?lines ! 7)"
    by (simp add: ustr_def)
  have d: "\<forall>j\<in>{7<..<length ?lines}. \<not> contains (ustr ''* Tundra'') (?lines ! j)"
    by code_simp
  have e: "contains (ustr ''# Output'') (?lines ! 3)"
    by (simp add: ustr_def)
  have f: "\<forall>j\<in>{3<..<7}. \<not> contains (ustr ''# Output'') (?lines ! j)"
    by code_simp
  have g: "filter (\<lambda>l. l \<noteq> []) (map (\<lambda>i. strip (?lines ! i)) [Suc 3..<7])
             = [ustr ''ErrorA'', ustr ''ErrorB'']"
    by (simp add: upt_rec strip_def is_space_def ustr_def)
  have m: "ustr ''Successfully read '' @ str_nat (length [ustr ''ErrorA'', ustr ''ErrorB''])
             @ ustr '' compilation records (from '' @ str_nat 3 @ ustr '' to '' @ str_nat 7
             @ ustr '')'' = ustr ''Successfully read 2 compilation records (from 3 to 7)''"
       "ustr ''Successfully read '' @ str_nat (length [ustr ''ErrorA'', ustr ''ErrorB''])
             @ ustr '' lines of compilation records from '' @ str_nat 3 @ ustr '' to ''
             @ str_nat 7 = ustr ''Successfully read 2 lines of compilation records from 3 to 7''"
    by (simp_all add: str_nat.simps ustr_def)
  from window_entries [OF i a b c d e f] show ?thesis
    unfolding Let_def g m by simp
qed

subsection \<open>Missing markers\<close>

text \<open>
  Claim C4. When no line holds the start marker, both extractors fail with the message
  that names the start marker and with no entries. When \<open>s\<close> is the last line with the
  start marker and no line after it holds the section marker, both fail with the message
  that names the section marker and with no entries.
\<close>

theorem missing_marker_fails:
  "((\<forall>l\<in>set lines. \<not> contains (ustr ''EditorCompilation:InvokeCompilationStarted'') l) \<longrightarrow>
      parse_log_lines lines =
        Inr [(ustr ''success'', PBool False),
             (ustr ''message'',
              PStr (ustr ''EditorCompilation:InvokeCompilationStarted marker not found'')),
             (ustr ''compilation_logs'', PList [])]
      \<and> tool_parse_log_lines lines =
        Inr [(ustr ''success'', PBool False),
             (ustr ''message'',
              PStr (ustr ''EditorCompilation:InvokeCompilationStarted marker not found'')),
             (ustr ''compilation_logs'', PList [])])
   \<and> (s < length lines
       \<and> contains (ustr ''EditorCompilation:InvokeCompilationStarted'') (lines ! s)
       \<and> (\<forall>j\<in>{s<..<length lines}.
             \<not> contains (ustr ''EditorCompilation:InvokeCompilationStarted'') (lines ! j)
             \<and> \<not> contains (ustr ''* Tundra'') (lines ! j)) \<longrightarrow>
      parse_log_lines lines =
        Inr [(ustr ''success'', PBool False),
             (ustr ''message'',
              PStr (ustr ''* Tundra not found after EditorCompilation:InvokeCompilationStarted'')),
             (ustr ''compilation_logs'', PList [])]
      \<and> tool_parse_log_lines lines =
        Inr [(ustr ''success'', PBool False),
             (ustr ''message'',
              PStr (ustr ''* Tundra not found after EditorCompilation:InvokeCompilationStarted'')),
             (ustr ''compilation_logs'', PList [])])"
proof (intro conjI impI)
  assume "\<forall>l\<in>set lines. \<not> contains (ustr ''EditorCompilation:InvokeCompilationStarted'') l"
  then have S: "scan_back (ustr ''EditorCompilation:InvokeCompilationStarted'') lines
                  (int (length lines) - 1) (- 1) = Inr (- 1)"
    by (rule start_absent)
  show "parse_log_lines lines =
        Inr [(ustr ''success'', PBool False),
             (ustr ''message'',
              PStr (ustr ''EditorCompilation:InvokeCompilationStarted marker not found'')),
             (ustr ''compilation_logs'', PList [])]"
    by (simp add: parse_log_lines_def S)
  show "tool_parse_log_lines lines =
        Inr [(ustr ''success'', PBool False),
             (ustr ''message'',
              PStr (ustr ''EditorCompilation:InvokeCompilationStarted marker not found'')),
             (ustr ''compilation_logs'', PList [])]"
    by (simp add: tool_parse_log_lines_def S)
next
  assume h: "s < length lines
       \<and> contains (ustr ''EditorCompilation:InvokeCompilationStarted'') (lines ! s)
       \<and> (\<forall>j\<in>{s<..<length lines}.
             \<not> contains (ustr ''EditorCompilation:InvokeCompilationStarted'') (lines ! j)
             \<and> \<not> contains (ustr ''* Tundra'') (lines ! j))"
  have S: "scan_back (ustr ''EditorCompilation:InvokeCompilationStarted'') lines
             (int (length lines) - 1) (- 1) = Inr (int s)"
    using h by (intro scan_last) auto
  have T: "scan_back (ustr ''* Tundra'') lines (int (length lines) - 1) (int s) = Inr (- 1)"
    using h by (intro scan_absent) auto
  show "parse_log_lines lines =
        Inr [(ustr ''success'', PBool False),
             (ustr ''message'',
              PStr (ustr ''* Tundra not found after EditorCompilation:InvokeCompilationStarted'')),
             (ustr ''compilation_logs'', PList [])]"
    by (simp add: parse_log_lines_def S T)
  show "tool_parse_log_lines lines =
        Inr [(ustr ''success'', PBool False),
             (ustr ''message'',
              PStr (ustr ''* Tundra not found after EditorCompilation:InvokeCompilationStarted'')),
             (ustr ''compilation_logs'', PList [])]"
    by (simp add: tool_parse_log_lines_def S T)
qed

theorem missing_marker_fails_witness:
  "parse_log_lines [ustr ''Refreshing native plugins''] =
        Inr [(ustr ''success'', PBool False),
             (ustr ''message'',
              PStr (ustr ''EditorCompilation:InvokeCompilationStarted marker not found'')),
             (ustr ''compilation_logs'', PList [])]
   \<and> tool_parse_log_lines
        [ustr ''EditorCompilation:InvokeCompilationStarted'', ustr ''# Output''] =
        Inr [(ustr ''success'', PBool False),
             (ustr ''message'',
              PStr (ustr ''* Tundra not found after EditorCompilation:InvokeCompilationStarted'')),
             (ustr ''compilation_logs'', PList [])]"
proof -
  let ?l1 = "[ustr ''Refreshing native plugins'']"
  let ?l2 = "[ustr ''EditorCompilation:InvokeCompilationStarted'', ustr ''# Output'']"
  have a: "\<forall>l\<in>set ?l1. \<not> contains (ustr ''EditorCompilation:InvokeCompilationStarted'') l"
    by (simp add: ustr_def)
  have b: "0 < length ?l2
       \<and> contains (ustr ''EditorCompilation:InvokeCompilationStarted'') (?l2 ! 0)
       \<and> (\<forall>j\<in>{0<..<length ?l2}.
             \<not> contains (ustr ''EditorCompilation:InvokeCompilationStarted'') (?l2 ! j)
             \<and> \<not> contains (ustr ''* Tundra'') (?l2 ! j))"
    by code_simp
  from a missing_marker_fails [of ?l1 0] b missing_marker_fails [of ?l2 0]
  show ?thesis by blast
qed

subsection \<open>The shape of every result\<close>

text \<open>
  Neither scan can raise: every index they read lies inside the list. So the extractor
  always returns one of its four dictionaries.
\<close>

lemma parse_log_lines_shape:
  "\<exists>b m ls. parse_log_lines lines =
      Inr [(ustr ''success'', PBool b), (ustr ''message'', PStr m),
           (ustr ''compilation_logs'', PList (map PStr ls))]
    \<and> (\<not> b \<longrightarrow> ls = [])"
proof -
  obtain s where S: "scan_back (ustr ''EditorCompilation:InvokeCompilationStarted'') lines
             (int (length lines) - 1) (- 1) = Inr s"
    and s: "s = - 1 \<or> (- 1 < s \<and> s \<le> int (length lines) - 1)"
    using scan_back_total [of "- 1" "int (length lines) - 1" lines
            "ustr ''EditorCompilation:InvokeCompilationStarted''"] by auto
  show ?thesis
  proof (cases "s = - 1")
    case True
    with S show ?thesis by (auto simp: parse_log_lines_def)
  next
    case ns: False
    obtain t where T: "scan_back (ustr ''* Tundra'') lines (int (length lines) - 1) s = Inr t"
      and t: "t = - 1 \<or> (s < t \<and> t \<le> int (length lines) - 1)"
      using scan_back_total [of s "int (length lines) - 1" lines "ustr ''* Tundra''"] s ns
      by auto
    show ?thesis
    proof (cases "t = - 1")
      case True
      with S T ns show ?thesis by (auto simp: parse_log_lines_def)
    next
      case nt: False
      obtain o' where O: "scan_back (ustr ''# Output'') lines (t - 1) s = Inr o'"
        and o: "o' = - 1 \<or> (s < o' \<and> o' \<le> t - 1)"
        using scan_back_total [of s "t - 1" lines "ustr ''# Output''"] s ns t nt
        by auto
      show ?thesis
      proof (cases "o' = - 1")
        case True
        with S T O ns nt show ?thesis by (auto simp: parse_log_lines_def)
      next
        case no: False
        have "collect lines (o' + 1) t [] =
                Inr ([] @ filter (\<lambda>l. l \<noteq> [])
                  (map strip (take (nat (t - (o' + 1))) (drop (nat (o' + 1)) lines))))"
          using s ns t nt o no by (intro collect_eq) auto
        with S T O ns nt no show ?thesis by (auto simp: parse_log_lines_def)
      qed
    qed
  qed
qed

lemma parse_compilation_logs_shape:
  "\<exists>b m ls. parse_compilation_logs fs p =
      Inr [(ustr ''success'', PBool b), (ustr ''message'', PStr m),
           (ustr ''compilation_logs'', PList (map PStr ls))]
    \<and> (\<not> b \<longrightarrow> ls = [])"
proof (cases "readlines fs p")
  case (Inl e)
  then show ?thesis by (auto simp: parse_compilation_logs_def)
next
  case (Inr lines)
  with parse_log_lines_shape [of lines] show ?thesis
    by (auto simp: parse_compilation_logs_def)
qed

lemma trigger_returns:
  "\<exists>b. trigger_compilation_via_unity c g = Inr b"
  by (cases "trigger_compilation_body c g") (auto simp: trigger_compilation_via_unity_def)

lemma compile_project_shape:
  "\<exists>b m ls. compile_project c skip g env fs =
      Inr [(ustr ''success'', PBool b), (ustr ''message'', PStr m),
           (ustr ''compilation_logs'', PList (map PStr ls))]
    \<and> (\<not> b \<longrightarrow> ls = [])"
proof -
  obtain tr where tr: "(if \<not> skip then trigger_compilation_via_unity c g else Inr False) = Inr tr"
    using trigger_returns [of c g] by (cases skip) auto
  show ?thesis
  proof (cases "get_editor_log_path env fs")
    case (Inl e)
    with tr have "compile_project c skip g env fs =
      Inr [(ustr ''success'', PBool False),
           (ustr ''message'', PStr (ustr ''Compilation error: '' @ str_exn e)),
           (ustr ''compilation_logs'', PList (map PStr []))]"
      by (simp add: compile_project_def compile_project_body_def)
    then show ?thesis by blast
  next
    case (Inr found)
    show ?thesis
    proof (cases found)
      case None
      with tr Inr have "compile_project c skip g env fs =
        Inr [(ustr ''success'', PBool False),
             (ustr ''message'', PStr (ustr ''Unity Editor.log not found'')),
             (ustr ''compilation_logs'', PList (map PStr []))]"
        by (simp add: compile_project_def compile_project_body_def)
      then show ?thesis by blast
    next
      case (Some p)
      obtain b m ls where r: "parse_compilation_logs fs p =
        Inr [(ustr ''success'', PBool b), (ustr ''message'', PStr m),
             (ustr ''compilation_logs'', PList (map PStr ls))]" and e: "\<not> b \<longrightarrow> ls = []"
        using parse_compilation_logs_shape [of fs p] by blast
      have "compile_project c skip g env fs =
        Inr [(ustr ''success'', PBool b), (ustr ''message'', PStr m),
             (ustr ''compilation_logs'', PList (map PStr ls))]"
        using tr Inr Some r
        by (simp add: compile_project_def compile_project_body_def py_item_def ustr_eq_iff)
      with e show ?thesis by blast
    qed
  qed
qed

text \<open>
  Claim C10. Whatever the file system, the environment and the connection do,
  \<open>parse_compilation_logs\<close> and \<open>compile_project\<close> return a dictionary with exactly the
  keys \<open>success\<close>, \<open>message\<close> and \<open>compilation_logs\<close>, and when \<open>success\<close> is false
  the list of logs is empty.
\<close>

theorem result_shape:
  "(\<exists>d b m ls. parse_compilation_logs fs editor_log_path = Inr d
       \<and> d = [(ustr ''success'', PBool b), (ustr ''message'', PStr m),
              (ustr ''compilation_logs'', PList (map PStr ls))]
       \<and> distinct (map fst d) \<and> (\<not> b \<longrightarrow> ls = []))
   \<and> (\<exists>d b m ls. compile_project unity_connection skip_trigger get_unity_connection env fs
                    = Inr d
       \<and> d = [(ustr ''success'', PBool b), (ustr ''message'', PStr m),
              (ustr ''compilation_logs'', PList (map PStr ls))]
       \<and> distinct (map fst d) \<and> (\<not> b \<longrightarrow> ls = []))"
proof (rule conjI)
  obtain b m ls where r: "parse_compilation_logs fs editor_log_path =
      Inr [(ustr ''success'', PBool b), (ustr ''message'', PStr m),
           (ustr ''compilation_logs'', PList (map PStr ls))]" and e: "\<not> b \<longrightarrow> ls = []"
    using parse_compilation_logs_shape [of fs editor_log_path] by blast
  have k: "distinct (map fst [(ustr ''success'', PBool b), (ustr ''message'', PStr m),
           (ustr ''compilation_logs'', PList (map PStr ls))])"
    by (simp add: ustr_eq_iff)
  from r k e show "\<exists>d b m ls. parse_compilation_logs fs editor_log_path = Inr d
       \<and> d = [(ustr ''success'', PBool b), (ustr ''message'', PStr m),
              (ustr ''compilation_logs'', PList (map PStr ls))]
       \<and> distinct (map fst d) \<and> (\<not> b \<longrightarrow> ls = [])"
    by blast
next
  obtain b m ls where r: "compile_project unity_connection skip_trigger get_unity_connection env fs =
      Inr [(ustr ''success'', PBool b), (ustr ''message'', PStr m),
           (ustr ''compilation_logs'', PList (map PStr ls))]" and e: "\<not> b \<longrightarrow> ls = []"
    using compile_project_shape [of unity_connection skip_trigger get_unity_connection env fs]
    by blast
  have k: "distinct (map fst [(ustr ''success'', PBool b), (ustr ''message'', PStr m),
           (ustr ''compilation_logs'', PList (map PStr ls))])"
    by (simp add: ustr_eq_iff)
  from r k e show "\<exists>d b m ls. compile_project unity_connection skip_trigger get_unity_connection env fs
                    = Inr d
       \<and> d = [(ustr ''success'', PBool b), (ustr ''message'', PStr m),
              (ustr ''compilation_logs'', PList (map PStr ls))]
       \<and> distinct (map fst d) \<and> (\<not> b \<longrightarrow> ls = [])"
    by blast
qed

theorem result_shape_witness:
  "parse_compilation_logs
      \<lparr>present = \<lambda>p. True, stat_error = \<lambda>p. None,
       readlines = \<lambda>p. Inl (Raised (ustr ''Permission denied''))\<rparr> []
    = Inr [(ustr ''success'', PBool False),
           (ustr ''message'', PStr (ustr ''Error reading log: Permission denied'')),
           (ustr ''compilation_logs'', PList [])]
   \<and> compile_project None True (Inr None) Map.empty
      \<lparr>present = \<lambda>p. True, stat_error = \<lambda>p. None,
       readlines = \<lambda>p. Inl (Raised (ustr ''Permission denied''))\<rparr>
    = Inr [(ustr ''success'', PBool False),
           (ustr ''message'', PStr (ustr ''Error reading log: Permission denied'')),
           (ustr ''compilation_logs'', PList [])]"
proof -
  let ?fs = "\<lparr>present = \<lambda>p. True, stat_error = \<lambda>p. None,
              readlines = \<lambda>p. Inl (Raised (ustr ''Permission denied''))\<rparr>"
  let ?msg = "ustr ''Error reading log: Permission denied''"
  have p: "\<exists>x. parse_compilation_logs ?fs [] =
            Inr [(ustr ''success'', PBool False), (ustr ''message'', PStr ?msg),
                 (ustr ''compilation_logs'', x)]"
    by (simp add: parse_compilation_logs_def ustr_append)
  have c: "\<exists>x. compile_project None True (Inr None) Map.empty ?fs =
            Inr [(ustr ''success'', PBool False), (ustr ''message'', PStr ?msg),
                 (ustr ''compilation_logs'', x)]"
    by (simp add: compile_project_def compile_project_body_def get_editor_log_path_def
          path_exists_def parse_compilation_logs_def py_item_def ustr_eq_iff ustr_append)
  from result_shape [of ?fs "[]" None True "Inr None" Map.empty]
  obtain b m ls b' m' ls' where
    1: "parse_compilation_logs ?fs [] =
          Inr [(ustr ''success'', PBool b), (ustr ''message'', PStr m),
               (ustr ''compilation_logs'', PList (map PStr ls))]" "\<not> b \<longrightarrow> ls = []"
    and 2: "compile_project None True (Inr None) Map.empty ?fs =
          Inr [(ustr ''success'', PBool b'), (ustr ''message'', PStr m'),
               (ustr ''compilation_logs'', PList (map PStr ls'))]" "\<not> b' \<longrightarrow> ls' = []"
    by blast
  from p 1 have "\<not> b" "m = ?msg" by auto
  with 1 have P: "parse_compilation_logs ?fs [] =
            Inr [(ustr ''success'', PBool False), (ustr ''message'', PStr ?msg),
                 (ustr ''compilation_logs'', PList [])]" by simp
  from c 2 have "\<not> b'" "m' = ?msg" by auto
  with 2 have C: "compile_project None True (Inr None) Map.empty ?fs =
            Inr [(ustr ''success'', PBool False), (ustr ''message'', PStr ?msg),
                 (ustr ''compilation_logs'', PList [])]" by simp
  from P C show ?thesis by (rule conjI)
qed

subsection \<open>The log file is missing\<close>

text \<open>
  Claim C7, as stated: with \<open>skip_trigger\<close> true, whenever the path of Editor.log does not
  exist the result is the dictionary with the message \<open>Unity Editor.log not found\<close>. It
  fails where the file is not there and \<open>stat\<close> fails with an error \<open>Path.exists()\<close> raises
  again, as under a directory that may not be searched: the handler of the whole function
  answers, with \<open>Compilation error: \<close> and the text of the error.
\<close>

theorem log_not_found_counterexample:
  "\<not> present
       \<lparr>present = \<lambda>p. False,
        stat_error = \<lambda>p. Some (Raised (ustr ''[Errno 13] Permission denied'')),
        readlines = \<lambda>p. Inl (Raised (ustr ''[Errno 13] Permission denied''))\<rparr>
       (expected_log_path Map.empty)
   \<and> compile_project None True (Inr None) Map.empty
       \<lparr>present = \<lambda>p. False,
        stat_error = \<lambda>p. Some (Raised (ustr ''[Errno 13] Permission denied'')),
        readlines = \<lambda>p. Inl (Raised (ustr ''[Errno 13] Permission denied''))\<rparr>
     = Inr [(ustr ''success'', PBool False),
            (ustr ''message'',
             PStr (ustr ''Compilation error: [Errno 13] Permission denied'')),
            (ustr ''compilation_logs'', PList [])]
   \<and> compile_project None True (Inr None) Map.empty
       \<lparr>present = \<lambda>p. False,
        stat_error = \<lambda>p. Some (Raised (ustr ''[Errno 13] Permission denied'')),
        readlines = \<lambda>p. Inl (Raised (ustr ''[Errno 13] Permission denied''))\<rparr>
     \<noteq> Inr [(ustr ''success'', PBool False),
            (ustr ''message'', PStr (ustr ''Unity Editor.log not found'')),
            (ustr ''compilation_logs'', PList [])]"
  by (simp add: compile_project_def compile_project_body_def get_editor_log_path_def
        path_exists_def ustr_append ustr_eq_iff)

text \<open>
  Claim C7, amended. With \<open>skip_trigger\<close> true: when \<open>Path.exists()\<close> answers \<open>False\<close> for
  the path of Editor.log, the result of \<open>compile_project\<close> is exactly the failure
  dictionary with the message \<open>Unity Editor.log not found\<close> and no logs; when it raises
  \<open>e\<close>, the result is the failure dictionary with the message \<open>Compilation error: \<close>
  followed by \<open>str(e)\<close> and no logs.
\<close>

theorem log_not_found:
  "(path_exists fs (expected_log_path env) = Inr False \<longrightarrow>
      compile_project unity_connection True get_unity_connection env fs =
        Inr [(ustr ''success'', PBool False),
             (ustr ''message'', PStr (ustr ''Unity Editor.log not found'')),
             (ustr ''compilation_logs'', PList [])])
   \<and> (path_exists fs (expected_log_path env) = Inl e \<longrightarrow>
      compile_project unity_connection True get_unity_connection env fs =
        Inr [(ustr ''success'', PBool False),
             (ustr ''message'', PStr (ustr ''Compilation error: '' @ str_exn e)),
             (ustr ''compilation_logs'', PList [])])"
  by (simp add: compile_project_def compile_project_body_def get_editor_log_path_def)

theorem log_not_found_witness:
  "path_exists \<lparr>present = \<lambda>p. False, stat_error = \<lambda>p. None,
                 readlines = \<lambda>p. Inl (Raised (ustr ''No such file''))\<rparr>
       (expected_log_path Map.empty) = Inr False
   \<and> compile_project None True (Inr None) Map.empty
       \<lparr>present = \<lambda>p. False, stat_error = \<lambda>p. None,
        readlines = \<lambda>p. Inl (Raised (ustr ''No such file''))\<rparr> =
     Inr [(ustr ''success'', PBool False),
          (ustr ''message'', PStr (ustr ''Unity Editor.log not found'')),
          (ustr ''compilation_logs'', PList [])]
   \<and> compile_project None True (Inr None) Map.empty
       \<lparr>present = \<lambda>p. False,
        stat_error = \<lambda>p. Some (Raised (ustr ''[Errno 36] File name too long'')),
        readlines = \<lambda>p. Inl (Raised (ustr ''No such file''))\<rparr> =
     Inr [(ustr ''success'', PBool False),
          (ustr ''message'', PStr (ustr ''Compilation error: [Errno 36] File name too long'')),
          (ustr ''compilation_logs'', PList [])]"
proof -
  let ?fs = "\<lparr>present = \<lambda>p. False, stat_error = \<lambda>p. None,
              readlines = \<lambda>p. Inl (Raised (ustr ''No such file''))\<rparr>"
  let ?fs' = "\<lparr>present = \<lambda>p. False,
               stat_error = \<lambda>p. Some (Raised (ustr ''[Errno 36] File name too long'')),
               readlines = \<lambda>p. Inl (Raised (ustr ''No such file''))\<rparr>"
  have a: "path_exists ?fs (expected_log_path Map.empty) = Inr False"
    by (simp add: path_exists_def)
  have b: "path_exists ?fs' (expected_log_path Map.empty)
             = Inl (Raised (ustr ''[Errno 36] File name too long''))"
    by (simp add: path_exists_def)
  have m: "ustr ''Compilation error: '' @ str_exn (Raised (ustr ''[Errno 36] File name too long''))
             = ustr ''Compilation error: [Errno 36] File name too long''"
    by (simp add: ustr_append)
  from a log_not_found [of ?fs Map.empty None "Inr None"]
  have 1: "compile_project None True (Inr None) Map.empty ?fs =
     Inr [(ustr ''success'', PBool False),
          (ustr ''message'', PStr (ustr ''Unity Editor.log not found'')),
          (ustr ''compilation_logs'', PList [])]" by blast
  from b log_not_found [of ?fs' Map.empty None "Inr None"
         "Raised (ustr ''[Errno 36] File name too long'')"]
  have 2: "compile_project None True (Inr None) Map.empty ?fs' =
     Inr [(ustr ''success'', PBool False),
          (ustr ''message'', PStr (ustr ''Compilation error: [Errno 36] File name too long'')),
          (ustr ''compilation_logs'', PList [])]" unfolding m [symmetric] by blast
  from a 1 2 show ?thesis by blast
qed

subsection \<open>No output section\<close>

text \<open>
  When the most recent session has its section marker but no output marker before it,
  the core module reports a clean compilation. The server tool, which repeats the scan,
  reports a failure on the same lines.
\<close>

lemma no_output_section:
  assumes "s < t" "t < length lines"
    and "contains (ustr ''EditorCompilation:InvokeCompilationStarted'') (lines ! s)"
    and "\<forall>j\<in>{s<..<length lines}.
           \<not> contains (ustr ''EditorCompilation:InvokeCompilationStarted'') (lines ! j)"
    and "contains (ustr ''* Tundra'') (lines ! t)"
    and "\<forall>j\<in>{t<..<length lines}. \<not> contains (ustr ''* Tundra'') (lines ! j)"
    and "\<forall>j\<in>{s<..<t}. \<not> contains (ustr ''# Output'') (lines ! j)"
  shows "parse_log_lines lines =
           Inr [(ustr ''success'', PBool True),
                (ustr ''message'',
                 PStr (ustr ''No errors found in this compilation. (# Output not found before * Tundra (from ''
                       @ str_nat s @ ustr '' to '' @ str_nat t @ ustr ''))'')),
                (ustr ''compilation_logs'', PList [])]"
    and "tool_parse_log_lines lines =
           Inr [(ustr ''success'', PBool False),
                (ustr ''message'',
                 PStr (ustr ''# Output not found before * Tundra from ''
                       @ str_nat s @ ustr '' to '' @ str_nat t)),
                (ustr ''compilation_logs'', PList [])]"
proof -
  have S: "scan_back (ustr ''EditorCompilation:InvokeCompilationStarted'') lines
             (int (length lines) - 1) (- 1) = Inr (int s)"
    using assms by (intro scan_last) auto
  have T: "scan_back (ustr ''* Tundra'') lines (int (length lines) - 1) (int s) = Inr (int t)"
    using assms by (intro scan_last) auto
  have O: "scan_back (ustr ''# Output'') lines (int t - 1) (int s) = Inr (- 1)"
    using assms by (intro scan_absent) auto
  show "parse_log_lines lines =
           Inr [(ustr ''success'', PBool True),
                (ustr ''message'',
                 PStr (ustr ''No errors found in this compilation. (# Output not found before * Tundra (from ''
                       @ str_nat s @ ustr '' to '' @ str_nat t @ ustr ''))'')),
                (ustr ''compilation_logs'', PList [])]"
    by (simp add: parse_log_lines_def S T O str_int_def)
  show "tool_parse_log_lines lines =
           Inr [(ustr ''success'', PBool False),
                (ustr ''message'',
                 PStr (ustr ''# Output not found before * Tundra from ''
                       @ str_nat s @ ustr '' to '' @ str_nat t)),
                (ustr ''compilation_logs'', PList [])]"
    by (simp add: tool_parse_log_lines_def S T O str_int_def)
qed

text \<open>
  Claim C2. A log of two lines, the start marker and then the section marker, has no
  output marker between them. The \<open>compile_project\<close> tool of server.py answers with
  \<open>success\<close> false, where the claim asks for success with no entries; the core module's
  \<open>compile_project\<close> gives that answer on the same file.
\<close>

theorem tool_reports_failure_without_output:
  "compile_project_tool None (Inr None) Map.empty
      \<lparr>present = \<lambda>p. True, stat_error = \<lambda>p. None,
       readlines = \<lambda>p. Inr [ustr ''EditorCompilation:InvokeCompilationStarted'',
                              ustr ''* Tundra build success (0.52 seconds)'']\<rparr>
    = Inr [(ustr ''success'', PBool False),
           (ustr ''message'', PStr (ustr ''# Output not found before * Tundra from 0 to 1'')),
           (ustr ''compilation_logs'', PList [])]
   \<and> compile_project None True (Inr None) Map.empty
      \<lparr>present = \<lambda>p. True, stat_error = \<lambda>p. None,
       readlines = \<lambda>p. Inr [ustr ''EditorCompilation:InvokeCompilationStarted'',
                              ustr ''* Tundra build success (0.52 seconds)'']\<rparr>
    = Inr [(ustr ''success'', PBool True),
           (ustr ''message'',
            PStr (ustr ''No errors found in this compilation. (# Output not found before * Tundra (from 0 to 1))'')),
           (ustr ''compilation_logs'', PList [])]"
proof -
  let ?lines = "[ustr ''EditorCompilation:InvokeCompilationStarted'',
                 ustr ''* Tundra build success (0.52 seconds)'']"
  have i: "(0::nat) < 1" "1 < length ?lines" by simp_all
  have a: "contains (ustr ''EditorCompilation:InvokeCompilationStarted'') (?lines ! 0)"
    by (simp add: ustr_def)
  have b: "\<forall>j\<in>{0<..<length ?lines}.
             \<not> contains (ustr ''EditorCompilation:InvokeCompilationStarted'') (?lines ! j)"
    by code_simp
  have c: "contains (ustr ''* Tundra'') (?lines ! 1)"
    by (simp add: ustr_def)
  have d: "\<forall>j\<in>{1<..<length ?lines}. \<not> contains (ustr ''* Tundra'') (?lines ! j)"
    by code_simp
  have e: "\<forall>j\<in>{0<..<1}. \<not> contains (ustr ''# Output'') (?lines ! j)"
    by code_simp
  have m: "ustr ''# Output not found before * Tundra from '' @ str_nat 0 @ ustr '' to '' @ str_nat 1
             = ustr ''# Output not found before * Tundra from 0 to 1''"
     "ustr ''No errors found in this compilation. (# Output not found before * Tundra (from ''
        @ str_nat 0 @ ustr '' to '' @ str_nat 1 @ ustr ''))''
      = ustr ''No errors found in this compilation. (# Output not found before * Tundra (from 0 to 1))''"
    by (simp_all add: str_nat.simps ustr_def)
  note r = no_output_section [OF i a b c d e, unfolded m]
  show ?thesis
    by (simp add: compile_project_tool_def compile_project_tool_body_def compile_project_def
          compile_project_body_def get_editor_log_path_def path_exists_def
          parse_compilation_logs_def
          py_item_def ustr_eq_iff r)
qed

section \<open>Dynamically registered tools\<close>

subsection \<open>What leaves \<open>tool_func\<close>\<close>

text \<open>
  The body of \<open>tool_func\<close> raises in three places only: where \<open>get_unity_connection\<close>
  raises, where \<open>send_command\<close> raises, and at \<open>.get\<close> on a response that is not a
  dictionary, with \<open>AttributeError\<close>.
\<close>

lemma py_get_raises:
  "(py_get v k dflt = Inl e) = (\<not> is_dict v \<and> e = AttributeError (type_name v) (ustr ''get''))"
  by (cases v) auto

lemma tool_func_body_raises:
  "(tool_func_body cmd_type ctx_bridge get_unity_connection kwargs = Inl t) =
     ((ctx_bridge = None \<and> get_unity_connection = Inl t)
      \<or> (\<exists>bridge. (ctx_bridge = Some bridge
                     \<or> ctx_bridge = None \<and> get_unity_connection = Inr (Some bridge))
            \<and> (bridge cmd_type kwargs = Inl t
               \<or> (\<exists>v. bridge cmd_type kwargs = Inr v \<and> \<not> is_dict v
                      \<and> t = Of_Exception (AttributeError (type_name v) (ustr ''get''))))))"
proof (cases ctx_bridge)
  case None
  show ?thesis
  proof (cases get_unity_connection)
    case (Inl a)
    with None show ?thesis by (auto simp: tool_func_body_def)
  next
    case (Inr b)
    show ?thesis
    proof (cases b)
      case None': None
      with None Inr show ?thesis by (simp add: tool_func_body_def)
    next
      case (Some bridge)
      show ?thesis
      proof (cases "bridge cmd_type kwargs")
        case (Inl a)
        with None Inr Some show ?thesis by (auto simp: tool_func_body_def)
      next
        case r: (Inr v)
        show ?thesis
          using None Inr Some r
          by (cases v) (auto simp: tool_func_body_def)
      qed
    qed
  qed
next
  case (Some bridge)
  show ?thesis
  proof (cases "bridge cmd_type kwargs")
    case (Inl a)
    with Some show ?thesis by (auto simp: tool_func_body_def)
  next
    case r: (Inr v)
    show ?thesis
      using Some r
      by (cases v) (auto simp: tool_func_body_def)
  qed
qed

lemma tool_func_raises:
  "(tool_func cmd_type ctx_bridge get_unity_connection kwargs = Inl t) =
     (\<exists>n. t = Not_Exception n
          \<and> tool_func_body cmd_type ctx_bridge get_unity_connection kwargs = Inl t)"
proof (cases "tool_func_body cmd_type ctx_bridge get_unity_connection kwargs")
  case (Inl a)
  then show ?thesis by (cases a) (auto simp: tool_func_def)
next
  case (Inr b)
  then show ?thesis by (simp add: tool_func_def)
qed

text \<open>
  Claim C3, as stated: every invocation, with any argument map and any connection state,
  returns a dictionary and lets no exception through. It fails twice. An exception
  outside class \<open>Exception\<close>, here a \<open>KeyboardInterrupt\<close> during \<open>send_command\<close>, passes
  \<open>except Exception\<close> and reaches the caller. And an argument map that holds the key
  \<open>ctx\<close> makes the call raise \<open>TypeError\<close> before the \<open>try\<close> is entered.
\<close>

theorem tool_func_escapes_counterexample:
  "call_tool_func (ustr ''create-object'')
      (Some (\<lambda>name params. Inl (Not_Exception (ustr ''KeyboardInterrupt''))))
      (Inr None) [(ustr ''name'', PStr (ustr ''Cube''))]
     = Inl (Not_Exception (ustr ''KeyboardInterrupt''))
   \<and> call_tool_func (ustr ''create-object'') None (Inr None) [(ustr ''ctx'', PNone)]
     = Inl (Of_Exception (TypeError
         (ustr (''register_dynamic_unity_tools.<locals>.make_tool_func.<locals>.tool_func()''
                @ '' got multiple values for argument '' @ [CHR 0x27] @ ''ctx''
                @ [CHR 0x27]))))"
  by (simp add: call_tool_func_def tool_func_def tool_func_body_def ustr_eq_iff)

text \<open>
  Claim C3, amended. For every invocation whose argument map does not hold the key \<open>ctx\<close>,
  with any connection state: an exception \<open>e\<close> of class \<open>Exception\<close> raised by
  \<open>get_unity_connection\<close> or by \<open>send_command\<close>, and the \<open>AttributeError\<close> of a response
  that is not a dictionary, give the dictionary \<open>success\<close> false with the message
  \<open>Error: \<close> followed by \<open>str(e)\<close>; and all that can reach the caller is an exception
  outside class \<open>Exception\<close> that \<open>get_unity_connection\<close> or \<open>send_command\<close> raised.
\<close>

theorem tool_func_catches_exceptions:
  assumes "ustr ''ctx'' \<notin> fst ` set arguments"
  shows
  "(ctx_bridge = None \<and> get_unity_connection = Inl (Of_Exception e) \<longrightarrow>
      call_tool_func cmd_type ctx_bridge get_unity_connection arguments =
        Inr [(ustr ''success'', PBool False),
             (ustr ''message'', PStr (ustr ''Error: '' @ str_exn e))])
   \<and> ((ctx_bridge = Some bridge
          \<or> ctx_bridge = None \<and> get_unity_connection = Inr (Some bridge))
        \<and> bridge cmd_type arguments = Inl (Of_Exception e) \<longrightarrow>
      call_tool_func cmd_type ctx_bridge get_unity_connection arguments =
        Inr [(ustr ''success'', PBool False),
             (ustr ''message'', PStr (ustr ''Error: '' @ str_exn e))])
   \<and> ((ctx_bridge = Some bridge
          \<or> ctx_bridge = None \<and> get_unity_connection = Inr (Some bridge))
        \<and> bridge cmd_type arguments = Inr v \<and> \<not> is_dict v \<longrightarrow>
      call_tool_func cmd_type ctx_bridge get_unity_connection arguments =
        Inr [(ustr ''success'', PBool False),
             (ustr ''message'',
              PStr (ustr ''Error: '' @ str_exn (AttributeError (type_name v) (ustr ''get''))))])
   \<and> (\<forall>t. call_tool_func cmd_type ctx_bridge get_unity_connection arguments = Inl t \<longrightarrow>
         (\<exists>n. t = Not_Exception n
            \<and> (ctx_bridge = None \<and> get_unity_connection = Inl t
               \<or> (\<exists>b. (ctx_bridge = Some b
                         \<or> ctx_bridge = None \<and> get_unity_connection = Inr (Some b))
                        \<and> b cmd_type arguments = Inl t))))"
proof (intro conjI impI allI)
  have c: "call_tool_func cmd_type ctx_bridge get_unity_connection arguments
             = tool_func cmd_type ctx_bridge get_unity_connection arguments"
    using assms by (simp add: call_tool_func_def)
  {
    assume "ctx_bridge = None \<and> get_unity_connection = Inl (Of_Exception e)"
    then have "tool_func_body cmd_type ctx_bridge get_unity_connection arguments
                 = Inl (Of_Exception e)"
      by (simp add: tool_func_body_raises)
    then show "call_tool_func cmd_type ctx_bridge get_unity_connection arguments =
        Inr [(ustr ''success'', PBool False),
             (ustr ''message'', PStr (ustr ''Error: '' @ str_exn e))]"
      by (simp add: c tool_func_def)
  }
  {
    assume "(ctx_bridge = Some bridge
              \<or> ctx_bridge = None \<and> get_unity_connection = Inr (Some bridge))
            \<and> bridge cmd_type arguments = Inl (Of_Exception e)"
    then have "tool_func_body cmd_type ctx_bridge get_unity_connection arguments
                 = Inl (Of_Exception e)"
      unfolding tool_func_body_raises by blast
    then show "call_tool_func cmd_type ctx_bridge get_unity_connection arguments =
        Inr [(ustr ''success'', PBool False),
             (ustr ''message'', PStr (ustr ''Error: '' @ str_exn e))]"
      by (simp add: c tool_func_def)
  }
  {
    assume "(ctx_bridge = Some bridge
              \<or> ctx_bridge = None \<and> get_unity_connection = Inr (Some bridge))
            \<and> bridge cmd_type arguments = Inr v \<and> \<not> is_dict v"
    then have "tool_func_body cmd_type ctx_bridge get_unity_connection arguments
                 = Inl (Of_Exception (AttributeError (type_name v) (ustr ''get'')))"
      unfolding tool_func_body_raises by blast
    then show "call_tool_func cmd_type ctx_bridge get_unity_connection arguments =
        Inr [(ustr ''success'', PBool False),
             (ustr ''message'',
              PStr (ustr ''Error: '' @ str_exn (AttributeError (type_name v) (ustr ''get''))))]"
      by (simp add: c tool_func_def)
  }
  {
    fix t
    assume "call_tool_func cmd_type ctx_bridge get_unity_connection arguments = Inl t"
    with c have "tool_func cmd_type ctx_bridge get_unity_connection arguments = Inl t"
      by simp
    then obtain n where n: "t = Not_Exception n"
      and b: "tool_func_body cmd_type ctx_bridge get_unity_connection arguments = Inl t"
      unfolding tool_func_raises by blast
    from b n have "ctx_bridge = None \<and> get_unity_connection = Inl t
               \<or> (\<exists>b. (ctx_bridge = Some b
                         \<or> ctx_bridge = None \<and> get_unity_connection = Inr (Some b))
                        \<and> b cmd_type arguments = Inl t)"
      unfolding tool_func_body_raises by blast
    with n show "\<exists>n. t = Not_Exception n
            \<and> (ctx_bridge = None \<and> get_unity_connection = Inl t
               \<or> (\<exists>b. (ctx_bridge = Some b
                         \<or> ctx_bridge = None \<and> get_unity_connection = Inr (Some b))
                        \<and> b cmd_type arguments = Inl t))"
      by blast
  }
qed

theorem tool_func_catches_exceptions_witness:
  "call_tool_func (ustr ''create-object'') None
      (Inl (Of_Exception (Raised (ustr ''Could not connect to Unity''))))
      [(ustr ''name'', PStr (ustr ''Cube''))]
     = Inr [(ustr ''success'', PBool False),
            (ustr ''message'', PStr (ustr ''Error: Could not connect to Unity''))]
   \<and> call_tool_func (ustr ''create-object'')
      (Some (\<lambda>name params. Inl (Of_Exception (Raised (ustr ''Connection closed'')))))
      (Inr None) [(ustr ''name'', PStr (ustr ''Cube''))]
     = Inr [(ustr ''success'', PBool False),
            (ustr ''message'', PStr (ustr ''Error: Connection closed''))]
   \<and> call_tool_func (ustr ''create-object'') (Some (\<lambda>name params. Inr PNone))
      (Inr None) [(ustr ''name'', PStr (ustr ''Cube''))]
     = Inr [(ustr ''success'', PBool False),
            (ustr ''message'',
             PStr (ustr (''Error: '' @ [CHR 0x27] @ ''NoneType'' @ [CHR 0x27]
                         @ '' object has no attribute '' @ [CHR 0x27] @ ''get''
                         @ [CHR 0x27])))]"
proof -
  let ?args = "[(ustr ''name'', PStr (ustr ''Cube''))]"
  let ?down = "\<lambda>(name::pystr) (params::pydict).
                 (Inl (Of_Exception (Raised (ustr ''Connection closed''))) :: thrown + pyval)"
  let ?odd = "\<lambda>(name::pystr) (params::pydict). (Inr PNone :: thrown + pyval)"
  have k: "ustr ''ctx'' \<notin> fst ` set ?args"
    by (simp add: ustr_eq_iff)
  have m: "ustr ''Error: '' @ str_exn (Raised (ustr ''Could not connect to Unity''))
             = ustr ''Error: Could not connect to Unity''"
     "ustr ''Error: '' @ str_exn (Raised (ustr ''Connection closed''))
             = ustr ''Error: Connection closed''"
     "ustr ''Error: '' @ str_exn (AttributeError (type_name PNone) (ustr ''get''))
             = ustr (''Error: '' @ [CHR 0x27] @ ''NoneType'' @ [CHR 0x27]
                         @ '' object has no attribute '' @ [CHR 0x27] @ ''get''
                         @ [CHR 0x27])"
    by (simp_all add: ustr_append)
  from tool_func_catches_exceptions [OF k, of None
         "Inl (Of_Exception (Raised (ustr ''Could not connect to Unity'')))"
         "Raised (ustr ''Could not connect to Unity'')" "ustr ''create-object''"]
  have 1: "call_tool_func (ustr ''create-object'') None
      (Inl (Of_Exception (Raised (ustr ''Could not connect to Unity'')))) ?args
     = Inr [(ustr ''success'', PBool False),
            (ustr ''message'', PStr (ustr ''Error: Could not connect to Unity''))]"
    unfolding m by blast
  from tool_func_catches_exceptions [OF k, of "Some ?down" "Inr None"
         "Raised (ustr ''Connection closed'')" "ustr ''create-object''" ?down]
  have 2: "call_tool_func (ustr ''create-object'') (Some ?down) (Inr None) ?args
     = Inr [(ustr ''success'', PBool False),
            (ustr ''message'', PStr (ustr ''Error: Connection closed''))]"
    unfolding m by blast
  from tool_func_catches_exceptions [OF k, of "Some ?odd" "Inr None" _
         "ustr ''create-object''" ?odd PNone]
  have 3: "call_tool_func (ustr ''create-object'') (Some ?odd) (Inr None) ?args
     = Inr [(ustr ''success'', PBool False),
            (ustr ''message'',
             PStr (ustr (''Error: '' @ [CHR 0x27] @ ''NoneType'' @ [CHR 0x27]
                         @ '' object has no attribute '' @ [CHR 0x27] @ ''get''
                         @ [CHR 0x27])))]"
    unfolding m by simp
  from 1 2 3 show ?thesis by blast
qed

subsection \<open>The response of the executor\<close>

text \<open>
  Claim C5. When a connection is there and \<open>send_command\<close> returns a dictionary: if its
  \<open>success\<close> entry is truthy the result is \<open>success\<close> true with the response's
  \<open>message\<close> (\<open>Operation successful\<close> when it has none) and its \<open>data\<close> (\<open>None\<close> when it
  has none); otherwise the result is \<open>success\<close> false with the response's \<open>error\<close>, or
  \<open>Unknown error\<close> when it has none.
\<close>

theorem tool_func_maps_response:
  assumes "ctx_bridge = Some bridge
           \<or> ctx_bridge = None \<and> get_unity_connection = Inr (Some bridge)"
    and "bridge cmd_type kwargs = Inr (PDict response)"
  shows "tool_func cmd_type ctx_bridge get_unity_connection kwargs =
           (if truthy (case map_of response (ustr ''success'') of
                         None \<Rightarrow> PNone | Some v \<Rightarrow> v)
            then Inr [(ustr ''success'', PBool True),
                      (ustr ''message'',
                       case map_of response (ustr ''message'') of
                         None \<Rightarrow> PStr (ustr ''Operation successful'') | Some m \<Rightarrow> m),
                      (ustr ''data'',
                       case map_of response (ustr ''data'') of
                         None \<Rightarrow> PNone | Some d \<Rightarrow> d)]
            else Inr [(ustr ''success'', PBool False),
                      (ustr ''message'',
                       case map_of response (ustr ''error'') of
                         None \<Rightarrow> PStr (ustr ''Unknown error'') | Some m \<Rightarrow> m)])"
  using assms by (auto simp: tool_func_def tool_func_body_def)

theorem tool_func_maps_response_witness:
  "tool_func (ustr ''create-object'')
      (Some (\<lambda>name params.
          Inr (PDict [(ustr ''success'', PBool True), (ustr ''message'', PStr (ustr ''Created'')),
                      (ustr ''data'', PInt 7)])))
      (Inr None) [(ustr ''name'', PStr (ustr ''Cube''))]
     = Inr [(ustr ''success'', PBool True), (ustr ''message'', PStr (ustr ''Created'')),
            (ustr ''data'', PInt 7)]
   \<and> tool_func (ustr ''create-object'')
      None (Inr (Some (\<lambda>name params. Inr (PDict [(ustr ''success'', PBool False)]))))
      [(ustr ''name'', PStr (ustr ''Cube''))]
     = Inr [(ustr ''success'', PBool False), (ustr ''message'', PStr (ustr ''Unknown error''))]"
proof -
  let ?ok = "\<lambda>(name::pystr) (params::pydict).
          (Inr (PDict [(ustr ''success'', PBool True), (ustr ''message'', PStr (ustr ''Created'')),
                      (ustr ''data'', PInt 7)]) :: thrown + pyval)"
  let ?bad = "\<lambda>(name::pystr) (params::pydict).
                (Inr (PDict [(ustr ''success'', PBool False)]) :: thrown + pyval)"
  have 1: "tool_func (ustr ''create-object'') (Some ?ok) (Inr None)
             [(ustr ''name'', PStr (ustr ''Cube''))]
           = Inr [(ustr ''success'', PBool True), (ustr ''message'', PStr (ustr ''Created'')),
                  (ustr ''data'', PInt 7)]"
    using tool_func_maps_response [of "Some ?ok" ?ok "Inr None" "ustr ''create-object''"
            "[(ustr ''name'', PStr (ustr ''Cube''))]"
            "[(ustr ''success'', PBool True), (ustr ''message'', PStr (ustr ''Created'')),
              (ustr ''data'', PInt 7)]"]
    by (simp add: ustr_eq_iff)
  have 2: "tool_func (ustr ''create-object'') None (Inr (Some ?bad))
             [(ustr ''name'', PStr (ustr ''Cube''))]
           = Inr [(ustr ''success'', PBool False), (ustr ''message'', PStr (ustr ''Unknown error''))]"
    using tool_func_maps_response [of None ?bad "Inr (Some ?bad)" "ustr ''create-object''"
            "[(ustr ''name'', PStr (ustr ''Cube''))]" "[(ustr ''success'', PBool False)]"]
    by (simp add: ustr_eq_iff)
  from 1 2 show ?thesis by blast
qed

subsection \<open>No connection\<close>

text \<open>
  Claim C6, as stated: whenever no connection is available, neither from the context nor
  anew, the result is \<open>success\<close> false with the message \<open>Unity connection not available\<close>.
  It fails where the connection cannot be had because \<open>get_unity_connection\<close> raises: the
  handler answers with \<open>Error: \<close> and the text of the exception. It fails too where the
  argument map holds the key \<open>ctx\<close>, for then the call raises before the body runs.
\<close>

theorem no_connection_available_counterexample:
  "call_tool_func (ustr ''list-scenes'') None
      (Inl (Of_Exception (Raised (ustr ''Unity is not running'')))) []
     = Inr [(ustr ''success'', PBool False),
            (ustr ''message'', PStr (ustr ''Error: Unity is not running''))]
   \<and> call_tool_func (ustr ''list-scenes'') None
      (Inl (Of_Exception (Raised (ustr ''Unity is not running'')))) []
     \<noteq> Inr [(ustr ''success'', PBool False),
            (ustr ''message'', PStr (ustr ''Unity connection not available''))]
   \<and> call_tool_func (ustr ''list-scenes'') None (Inr None) [(ustr ''ctx'', PInt 1)]
     \<noteq> Inr [(ustr ''success'', PBool False),
            (ustr ''message'', PStr (ustr ''Unity connection not available''))]"
  by (simp add: call_tool_func_def tool_func_def tool_func_body_def ustr_eq_iff ustr_append)

text \<open>
  Claim C6, amended. When the context holds no bridge, \<open>get_unity_connection\<close> returns
  without raising and returns no connection, and the argument map does not hold the key
  \<open>ctx\<close>, the result is \<open>success\<close> false with the message
  \<open>Unity connection not available\<close>.
\<close>

theorem no_connection_available:
  "ustr ''ctx'' \<notin> fst ` set arguments \<Longrightarrow>
   call_tool_func cmd_type None (Inr None) arguments =
     Inr [(ustr ''success'', PBool False),
          (ustr ''message'', PStr (ustr ''Unity connection not available''))]"
  by (simp add: call_tool_func_def tool_func_def tool_func_body_def)

theorem no_connection_available_witness:
  "ustr ''ctx'' \<notin> fst ` set [(ustr ''path'', PStr (ustr ''Assets''))]
   \<and> call_tool_func (ustr ''list-scenes'') None (Inr None)
        [(ustr ''path'', PStr (ustr ''Assets''))] =
     Inr [(ustr ''success'', PBool False),
          (ustr ''message'', PStr (ustr ''Unity connection not available''))]"
proof -
  have k: "ustr ''ctx'' \<notin> fst ` set [(ustr ''path'', PStr (ustr ''Assets''))]"
    by (simp add: ustr_eq_iff)
  from k no_connection_available [OF k, of "ustr ''list-scenes''"] show ?thesis
    by (rule conjI)
qed

section \<open>Triggering the compilation\<close>

text \<open>
  Claim C9. When a connection is there and the response to \<open>project_files_refresher\<close>
  is a dictionary without the key \<open>error\<close>, \<open>trigger_compilation_via_unity\<close> returns
  \<open>True\<close>, whatever the dictionary holds under \<open>success\<close>.
\<close>

theorem trigger_without_error_key:
  assumes "unity_connection = Some conn
           \<or> unity_connection = None \<and> get_unity_connection = Inr (Some conn)"
    and "conn (ustr ''project_files_refresher'') [] = Inr (PDict response)"
    and "ustr ''error'' \<notin> fst ` set response"
  shows "trigger_compilation_via_unity unity_connection get_unity_connection = Inr True"
  using assms
  by (auto simp: trigger_compilation_via_unity_def trigger_compilation_body_def)

theorem trigger_without_error_key_witness:
  "ustr ''error'' \<notin> fst ` set [(ustr ''success'', PBool False)]
   \<and> trigger_compilation_via_unity
       (Some (\<lambda>name params. Inr (PDict [(ustr ''success'', PBool False)]))) (Inr None)
     = Inr True"
proof -
  let ?conn = "\<lambda>(name::pystr) (params::pydict).
                 (Inr (PDict [(ustr ''success'', PBool False)]) :: exn + pyval)"
  have k: "ustr ''error'' \<notin> fst ` set [(ustr ''success'', PBool False)]"
    by (simp add: ustr_eq_iff)
  from trigger_without_error_key [of "Some ?conn" ?conn "Inr None"
         "[(ustr ''success'', PBool False)]"] k
  show ?thesis by simp
qed

section \<open>Registration\<close>






end
